theory Spec2Isabelle
  imports Complex_Main
begin

section \<open>JavaScript numbers\<close>

text \<open>
  Every numeric field of \<open>CircleSimulation\<close> is a JavaScript \<open>number\<close>. The model keeps
  the three kinds of value that decide how the arithmetic of \<open>update\<close> branches: a finite
  value, the two infinities and NaN. Finite values are real numbers, so rounding, overflow
  of a finite result and the sign of zero are outside the model (a zero is treated as
  \<open>+0\<close>); the results of \<open>0/0\<close>, \<open>x/0\<close>, \<open>0 * Infinity\<close> and of comparisons with NaN
  are as ECMAScript defines them.
\<close>

datatype jsnum = Fin real | PInf | NInf | NaN

fun js_neg :: "jsnum \<Rightarrow> jsnum" where
  "js_neg (Fin a) = Fin (- a)"
| "js_neg PInf = NInf"
| "js_neg NInf = PInf"
| "js_neg NaN = NaN"

fun js_add :: "jsnum \<Rightarrow> jsnum \<Rightarrow> jsnum" where
  "js_add (Fin a) (Fin b) = Fin (a + b)"
| "js_add NaN _ = NaN"
| "js_add _ NaN = NaN"
| "js_add PInf NInf = NaN"
| "js_add NInf PInf = NaN"
| "js_add PInf _ = PInf"
| "js_add _ PInf = PInf"
| "js_add NInf _ = NInf"
| "js_add _ NInf = NInf"

definition js_sub :: "jsnum \<Rightarrow> jsnum \<Rightarrow> jsnum" where
  "js_sub a b = js_add a (js_neg b)"

text \<open>The sign of an infinite product or quotient, from the sign of the finite operand.\<close>

definition signed_inf :: "bool \<Rightarrow> jsnum" where
  "signed_inf positive = (if positive then PInf else NInf)"

fun js_mul :: "jsnum \<Rightarrow> jsnum \<Rightarrow> jsnum" where
  "js_mul (Fin a) (Fin b) = Fin (a * b)"
| "js_mul NaN _ = NaN"
| "js_mul _ NaN = NaN"
| "js_mul (Fin a) PInf = (if a = 0 then NaN else signed_inf (0 < a))"
| "js_mul (Fin a) NInf = (if a = 0 then NaN else signed_inf (a < 0))"
| "js_mul PInf (Fin b) = (if b = 0 then NaN else signed_inf (0 < b))"
| "js_mul NInf (Fin b) = (if b = 0 then NaN else signed_inf (b < 0))"
| "js_mul PInf PInf = PInf"
| "js_mul NInf NInf = PInf"
| "js_mul PInf NInf = NInf"
| "js_mul NInf PInf = NInf"

fun js_div :: "jsnum \<Rightarrow> jsnum \<Rightarrow> jsnum" where
  "js_div (Fin a) (Fin b) =
     (if b \<noteq> 0 then Fin (a / b) else if a = 0 then NaN else signed_inf (0 < a))"
| "js_div NaN _ = NaN"
| "js_div _ NaN = NaN"
| "js_div (Fin a) PInf = Fin 0"
| "js_div (Fin a) NInf = Fin 0"
| "js_div PInf (Fin b) = signed_inf (0 \<le> b)"
| "js_div NInf (Fin b) = signed_inf (b < 0)"
| "js_div PInf PInf = NaN"
| "js_div PInf NInf = NaN"
| "js_div NInf PInf = NaN"
| "js_div NInf NInf = NaN"

fun js_sqrt :: "jsnum \<Rightarrow> jsnum" where
  "js_sqrt (Fin a) = (if a < 0 then NaN else Fin (sqrt a))"
| "js_sqrt PInf = PInf"
| "js_sqrt NInf = NaN"
| "js_sqrt NaN = NaN"

text \<open>Comparisons: every comparison with NaN is false.\<close>

fun js_lt :: "jsnum \<Rightarrow> jsnum \<Rightarrow> bool" where
  "js_lt (Fin a) (Fin b) = (a < b)"
| "js_lt NaN _ = False"
| "js_lt _ NaN = False"
| "js_lt _ NInf = False"
| "js_lt PInf _ = False"
| "js_lt NInf _ = True"
| "js_lt _ PInf = True"

fun js_le :: "jsnum \<Rightarrow> jsnum \<Rightarrow> bool" where
  "js_le (Fin a) (Fin b) = (a \<le> b)"
| "js_le NaN _ = False"
| "js_le _ NaN = False"
| "js_le NInf _ = True"
| "js_le _ PInf = True"
| "js_le _ NInf = False"
| "js_le PInf _ = False"

definition js_ge :: "jsnum \<Rightarrow> jsnum \<Rightarrow> bool" where
  "js_ge a b = js_le b a"

text \<open>\<open>Math.min\<close> of two arguments: NaN when either is NaN.\<close>

definition js_min :: "jsnum \<Rightarrow> jsnum \<Rightarrow> jsnum" where
  "js_min a b = (if a = NaN \<or> b = NaN then NaN else if js_le a b then a else b)"

fun js_cos :: "jsnum \<Rightarrow> jsnum" where
  "js_cos (Fin a) = Fin (cos a)"
| "js_cos _ = NaN"

fun js_sin :: "jsnum \<Rightarrow> jsnum" where
  "js_sin (Fin a) = Fin (sin a)"
| "js_sin _ = NaN"

text \<open>
  \<open>Math.atan2(y, x)\<close> on finite arguments: the angle of the point \<open>(x, y)\<close> in
  \<open>(-\<pi>, \<pi>]\<close>, and \<open>0\<close> at the origin.
\<close>

definition atan2 :: "real \<Rightarrow> real \<Rightarrow> real" where
  "atan2 y x =
     (if 0 < x then arctan (y / x)
      else if x < 0 then (if 0 \<le> y then arctan (y / x) + pi else arctan (y / x) - pi)
      else if 0 < y then pi / 2
      else if y < 0 then - (pi / 2)
      else 0)"

fun js_atan2 :: "jsnum \<Rightarrow> jsnum \<Rightarrow> jsnum" where
  "js_atan2 (Fin y) (Fin x) = Fin (atan2 y x)"
| "js_atan2 NaN _ = NaN"
| "js_atan2 _ NaN = NaN"
| "js_atan2 (Fin y) PInf = Fin 0"
| "js_atan2 (Fin y) NInf = (if 0 \<le> y then Fin pi else Fin (- pi))"
| "js_atan2 PInf (Fin x) = Fin (pi / 2)"
| "js_atan2 NInf (Fin x) = Fin (- (pi / 2))"
| "js_atan2 PInf PInf = Fin (pi / 4)"
| "js_atan2 PInf NInf = Fin (3 * pi / 4)"
| "js_atan2 NInf PInf = Fin (- (pi / 4))"
| "js_atan2 NInf NInf = Fin (- (3 * pi / 4))"

section \<open>The simulation state\<close>

text \<open>
  The fields of the class that the physics, the pointer handlers, the clock and the
  recording read or write. The canvas, the two drawing contexts, the audio graph, the
  text elements and the display colour are only painted or passed through, and \<open>draw\<close>
  writes none of the fields below, so they are left out and \<open>draw\<close> is the identity
  on this state.

  A \<open>MediaRecorder\<close> is an object of the browser: each \<open>new MediaRecorder\<close> allocates one,
  in state \<open>inactive\<close>. The model keeps the allocated recorders in a list (the store),
  addressed by position, and \<open>mediaRecorder\<close> holds the address of the one the field
  refers to. \<open>completed\<close> is the log of the calls of \<open>onRecordingComplete\<close> (the callback
  and the blob it received), and \<open>collisions\<close> counts the executions of the collision
  branch of \<open>update\<close>, at whose end \<open>onCollision\<close> is called when it is registered; both
  are ghost fields that record an effect and are read by no operation.
\<close>

type_synonym point = "jsnum \<times> jsnum"
type_synonym blob = "nat list"
type_synonym callback = nat

datatype recorder_state = Inactive | Recording

record sim =
  running :: bool
  startTime :: jsnum
  elapsedTime :: jsnum
  isDragging :: bool
  WIDTH :: nat
  HEIGHT :: nat
  CIRCLE_RADIUS :: jsnum
  GRAVITY :: jsnum
  VELOCITY_INCREASE_FACTOR :: jsnum
  VELOCITY_DECAY :: jsnum
  BALL_GROWTH_RATE :: jsnum
  MAX_BALL_RADIUS :: jsnum
  previousPositions :: "point list"
  ballRadius :: jsnum
  ballCenter :: point
  ballVelocity :: point
  collisionPoints :: "point list"
  collisions :: nat
  mediaRecorder :: "nat option"
  recorders :: "recorder_state list"
  chunks :: "blob list"
  onRecordingComplete :: "callback option"
  completed :: "(callback \<times> blob) list"

definition INITIAL_BALL_RADIUS :: jsnum where
  "INITIAL_BALL_RADIUS = Fin 5"

definition MOTION_BLUR_STEPS :: nat where
  "MOTION_BLUR_STEPS = 5"

definition MAX_COLLISION_POINTS :: nat where
  "MAX_COLLISION_POINTS = 50"

section \<open>Construction, reset and the setters\<close>

text \<open>
  \<open>reset\<close> (lines 136-145); \<open>now\<close> is the reading of \<open>performance.now()\<close>, a finite
  number of milliseconds.
\<close>

definition reset :: "real \<Rightarrow> sim \<Rightarrow> sim" where
  "reset now s = s\<lparr>
     ballRadius := INITIAL_BALL_RADIUS,
     ballCenter := (js_div (Fin (real (WIDTH s))) (Fin 2), js_div (Fin (real (HEIGHT s))) (Fin 2.7)),
     ballVelocity := (Fin 0.8, Fin 0.8),
     collisionPoints := [],
     previousPositions := [],
     startTime := Fin now,
     elapsedTime := Fin 0\<rparr>"

text \<open>
  The constructor (lines 40-71) on a canvas of \<open>w \<times> h\<close> pixels whose contexts are
  available: the field initialisers of lines 4-38, the two derived radii, then \<open>reset\<close>.
\<close>

definition constructor :: "nat \<Rightarrow> nat \<Rightarrow> real \<Rightarrow> sim" where
  "constructor w h now =
     (let circle = js_sub (js_div (Fin (real (min w h))) (Fin 2)) (Fin 125)
      in reset now \<lparr>
        running = False,
        startTime = Fin 0,
        elapsedTime = Fin 0,
        isDragging = False,
        WIDTH = w,
        HEIGHT = h,
        CIRCLE_RADIUS = circle,
        GRAVITY = Fin 0.4,
        VELOCITY_INCREASE_FACTOR = Fin 1.02,
        VELOCITY_DECAY = Fin 0.9995,
        BALL_GROWTH_RATE = Fin 1.015,
        MAX_BALL_RADIUS = js_mul circle (Fin 1.5),
        previousPositions = [],
        ballRadius = Fin 0,
        ballCenter = (Fin 0, Fin 0),
        ballVelocity = (Fin 0, Fin 0),
        collisionPoints = [],
        collisions = 0,
        mediaRecorder = None,
        recorders = [],
        chunks = [],
        onRecordingComplete = None,
        completed = []\<rparr>)"

definition setGravity :: "jsnum \<Rightarrow> sim \<Rightarrow> sim" where
  "setGravity v s = s\<lparr>GRAVITY := v\<rparr>"

definition setVelocityIncrease :: "jsnum \<Rightarrow> sim \<Rightarrow> sim" where
  "setVelocityIncrease v s = s\<lparr>VELOCITY_INCREASE_FACTOR := js_add (Fin 1) v\<rparr>"

definition setVelocityDecay :: "jsnum \<Rightarrow> sim \<Rightarrow> sim" where
  "setVelocityDecay v s = s\<lparr>VELOCITY_DECAY := v\<rparr>"

definition setBallGrowthRate :: "jsnum \<Rightarrow> sim \<Rightarrow> sim" where
  "setBallGrowthRate v s = s\<lparr>BALL_GROWTH_RATE := js_add (Fin 1) v\<rparr>"

section \<open>The physics step\<close>

text \<open>\<open>push\<close> followed by \<open>shift\<close> when the array is longer than \<open>cap\<close> (lines 167-170, 228-231).\<close>

definition push_capped :: "nat \<Rightarrow> 'a \<Rightarrow> 'a list \<Rightarrow> 'a list" where
  "push_capped cap x xs = (let ys = xs @ [x] in if cap < length ys then tl ys else ys)"

definition circleCenter :: "sim \<Rightarrow> point" where
  "circleCenter s = (js_div (Fin (real (WIDTH s))) (Fin 2), js_div (Fin (real (HEIGHT s))) (Fin 2))"

text \<open>
  Lines 166-181: the motion sample (a copy of the centre, so later writes to the centre
  do not reach the history), gravity, decay, and the new position.
\<close>

definition integrate :: "sim \<Rightarrow> sim" where
  "integrate s =
     (let (vx, vy) = ballVelocity s;
          vy1 = js_add vy (GRAVITY s);
          vx2 = js_mul vx (VELOCITY_DECAY s);
          vy2 = js_mul vy1 (VELOCITY_DECAY s);
          (cx, cy) = ballCenter s
      in s\<lparr>previousPositions := push_capped MOTION_BLUR_STEPS (ballCenter s) (previousPositions s),
           ballVelocity := (vx2, vy2),
           ballCenter := (js_add cx vx2, js_add cy vy2)\<rparr>)"

text \<open>Lines 184-189: \<open>dx\<close>, \<open>dy\<close>, \<open>distance\<close> and the collision test.\<close>

definition offset :: "sim \<Rightarrow> point" where
  "offset s = (js_sub (fst (ballCenter s)) (fst (circleCenter s)),
               js_sub (snd (ballCenter s)) (snd (circleCenter s)))"

definition distance :: "sim \<Rightarrow> jsnum" where
  "distance s = (let (dx, dy) = offset s in js_sqrt (js_add (js_mul dx dx) (js_mul dy dy)))"

definition collides :: "sim \<Rightarrow> bool" where
  "collides s = js_ge (distance s) (js_sub (CIRCLE_RADIUS s) (ballRadius s))"

text \<open>Lines 191-192: the normal \<open>(nx, ny)\<close>.\<close>

definition normal :: "sim \<Rightarrow> point" where
  "normal s = (let (dx, dy) = offset s in (js_div dx (distance s), js_div dy (distance s)))"

text \<open>Lines 195-199: the velocity after the reflection and the restitution.\<close>

definition reflected :: "sim \<Rightarrow> point" where
  "reflected s =
     (let (nx, ny) = normal s;
          (vx, vy) = ballVelocity s;
          dot = js_add (js_mul vx nx) (js_mul vy ny);
          restitution = Fin 0.95
      in (js_mul (js_sub vx (js_mul (js_mul (Fin 2) dot) nx)) restitution,
          js_mul (js_sub vy (js_mul (js_mul (Fin 2) dot) ny)) restitution))"

text \<open>Lines 202-207: the radius after the growth.\<close>

definition grown :: "sim \<Rightarrow> jsnum" where
  "grown s =
     (if js_lt (ballRadius s) (MAX_BALL_RADIUS s)
      then js_min (js_mul (ballRadius s) (BALL_GROWTH_RATE s)) (MAX_BALL_RADIUS s)
      else ballRadius s)"

text \<open>Lines 210-211: the velocity increase.\<close>

definition increased :: "jsnum \<Rightarrow> point \<Rightarrow> point" where
  "increased factor v = (js_mul (fst v) factor, js_mul (snd v) factor)"

text \<open>Lines 214-220: the minimum velocity; \<open>x**2\<close> is \<open>x * x\<close>.\<close>

definition speed :: "point \<Rightarrow> jsnum" where
  "speed v = js_sqrt (js_add (js_mul (fst v) (fst v)) (js_mul (snd v) (snd v)))"

definition floored :: "point \<Rightarrow> point" where
  "floored v =
     (let minVelocity = Fin 1; currentVelocity = speed v
      in if js_lt currentVelocity minVelocity
         then (let scale = js_div minVelocity currentVelocity
               in (js_mul (fst v) scale, js_mul (snd v) scale))
         else v)"

text \<open>Lines 223-225: the point of the boundary at the contact angle.\<close>

definition collisionPoint :: "sim \<Rightarrow> point" where
  "collisionPoint s =
     (let (dx, dy) = offset s;
          (ccx, ccy) = circleCenter s;
          angle = js_atan2 dy dx
      in (js_add ccx (js_mul (CIRCLE_RADIUS s) (js_cos angle)),
          js_add ccy (js_mul (CIRCLE_RADIUS s) (js_sin angle))))"

text \<open>
  Lines 190-239, the collision branch, on the state after the integration. The radius
  that positions the ball (lines 234-235) is the one already grown.
\<close>

definition resolve :: "sim \<Rightarrow> sim" where
  "resolve s =
     (let (dx, dy) = offset s;
          (ccx, ccy) = circleCenter s;
          radius = grown s;
          angle = js_atan2 dy dx;
          collisionX = js_add ccx (js_mul (CIRCLE_RADIUS s) (js_cos angle));
          collisionY = js_add ccy (js_mul (CIRCLE_RADIUS s) (js_sin angle))
      in s\<lparr>ballVelocity := floored (increased (VELOCITY_INCREASE_FACTOR s) (reflected s)),
           ballRadius := radius,
           collisionPoints :=
             push_capped MAX_COLLISION_POINTS (collisionX, collisionY) (collisionPoints s),
           ballCenter :=
             (js_add ccx (js_mul (js_sub (CIRCLE_RADIUS s) radius) (js_cos angle)),
              js_add ccy (js_mul (js_sub (CIRCLE_RADIUS s) radius) (js_sin angle))),
           collisions := Suc (collisions s)\<rparr>)"

text \<open>\<open>update\<close> (lines 163-241); \<open>now\<close> is the reading of \<open>performance.now()\<close> at line 164.\<close>

definition update :: "real \<Rightarrow> sim \<Rightarrow> sim" where
  "update now s =
     (let s1 = integrate
            (s\<lparr>elapsedTime := js_div (js_sub (Fin now) (startTime s)) (Fin 1000)\<rparr>)
      in if collides s1 then resolve s1 else s1)"

section \<open>Lifecycle and pointer handlers\<close>

text \<open>
  \<open>animate\<close> (lines 304-310): one \<open>update\<close> and one \<open>draw\<close> when running; requesting the
  next frame changes no modelled field.
\<close>

definition animate :: "real \<Rightarrow> sim \<Rightarrow> sim" where
  "animate now s = (if \<not> running s then s else update now s)"

text \<open>
  \<open>start\<close> (lines 312-318) reads the clock twice: \<open>now\<close> at line 314 and, through
  \<open>animate\<close>, \<open>tick\<close> at line 164.
\<close>

definition start :: "real \<Rightarrow> real \<Rightarrow> sim \<Rightarrow> sim" where
  "start now tick s =
     (let s1 = (if \<not> running s
                then s\<lparr>startTime := js_sub (Fin now) (js_mul (elapsedTime s) (Fin 1000))\<rparr>
                else s)
      in animate tick (s1\<lparr>running := True\<rparr>))"

definition stop :: "sim \<Rightarrow> sim" where
  "stop s = s\<lparr>running := False\<rparr>"

definition handleMouseDown :: "jsnum \<Rightarrow> jsnum \<Rightarrow> sim \<Rightarrow> sim" where
  "handleMouseDown x y s =
     (let dx = js_sub x (fst (ballCenter s));
          dy = js_sub y (snd (ballCenter s));
          d = js_sqrt (js_add (js_mul dx dx) (js_mul dy dy))
      in if js_le d (ballRadius s) then stop (s\<lparr>isDragging := True\<rparr>) else s)"

definition handleMouseMove :: "jsnum \<Rightarrow> jsnum \<Rightarrow> sim \<Rightarrow> sim" where
  "handleMouseMove x y s =
     (if isDragging s then s\<lparr>ballCenter := (x, y), ballVelocity := (Fin 0, Fin 0)\<rparr> else s)"

definition handleMouseUp :: "real \<Rightarrow> real \<Rightarrow> sim \<Rightarrow> sim" where
  "handleMouseUp now tick s =
     (if isDragging s then start now tick (s\<lparr>isDragging := False\<rparr>) else s)"

section \<open>Recording\<close>

text \<open>
  \<open>setupRecording\<close> (lines 82-114) allocates a recorder and points the field at it. Its
  two handlers are closures over the simulation, not over the recorder: whichever
  recorder fires, \<open>ondataavailable\<close> appends to \<open>this.chunks\<close> and \<open>onstop\<close> reads
  \<open>this.chunks\<close> and \<open>this.onRecordingComplete\<close> as they are at that moment.
\<close>

definition setupRecording :: "sim \<Rightarrow> sim" where
  "setupRecording s =
     s\<lparr>recorders := recorders s @ [Inactive], mediaRecorder := Some (length (recorders s))\<rparr>"

definition recorder_state_of :: "sim \<Rightarrow> recorder_state option" where
  "recorder_state_of s =
     (case mediaRecorder s of
        None \<Rightarrow> None
      | Some i \<Rightarrow> if i < length (recorders s) then Some (recorders s ! i) else None)"

definition set_recorder_state :: "recorder_state \<Rightarrow> sim \<Rightarrow> sim" where
  "set_recorder_state st s =
     (case mediaRecorder s of
        None \<Rightarrow> s
      | Some i \<Rightarrow> s\<lparr>recorders := (recorders s)[i := st]\<rparr>)"

definition startRecording :: "callback option \<Rightarrow> sim \<Rightarrow> sim" where
  "startRecording onComplete s =
     (let s1 = setupRecording s
      in if recorder_state_of s1 = Some Inactive
         then set_recorder_state Recording (s1\<lparr>chunks := [], onRecordingComplete := onComplete\<rparr>)
         else s1)"

definition stopRecording :: "sim \<Rightarrow> sim" where
  "stopRecording s =
     (if recorder_state_of s = Some Recording then set_recorder_state Inactive s else s)"

text \<open>The handler of lines 98-102, on the data of the event.\<close>

definition ondataavailable :: "blob \<Rightarrow> sim \<Rightarrow> sim" where
  "ondataavailable d s = (if 0 < length d then s\<lparr>chunks := chunks s @ [d]\<rparr> else s)"

text \<open>The handler of lines 104-113; the final blob is the concatenation of the chunks.\<close>

definition onstop :: "sim \<Rightarrow> sim" where
  "onstop s =
     (let finalBlob = concat (chunks s);
          s1 = (case onRecordingComplete s of
                  None \<Rightarrow> s
                | Some cb \<Rightarrow> s\<lparr>completed := completed s @ [(cb, finalBlob)]\<rparr>)
      in s1\<lparr>chunks := []\<rparr>)"

section \<open>Sequences of operations\<close>

text \<open>
  What can happen to a simulation: a call of a public method, a frame callback of the
  scheduler (\<open>Tick\<close>, which runs \<open>animate\<close>), or an event of a recorder.
\<close>

datatype op =
    Tick real
  | Start real real
  | Stop
  | Reset real
  | SetGravity jsnum
  | SetVelocityIncrease jsnum
  | SetVelocityDecay jsnum
  | SetBallGrowthRate jsnum
  | MouseDown jsnum jsnum
  | MouseMove jsnum jsnum
  | MouseUp real real
  | StartRecording "callback option"
  | StopRecording
  | DataAvailable blob
  | RecorderStopped

fun apply_op :: "op \<Rightarrow> sim \<Rightarrow> sim" where
  "apply_op (Tick now) s = animate now s"
| "apply_op (Start now tick) s = start now tick s"
| "apply_op Stop s = stop s"
| "apply_op (Reset now) s = reset now s"
| "apply_op (SetGravity v) s = setGravity v s"
| "apply_op (SetVelocityIncrease v) s = setVelocityIncrease v s"
| "apply_op (SetVelocityDecay v) s = setVelocityDecay v s"
| "apply_op (SetBallGrowthRate v) s = setBallGrowthRate v s"
| "apply_op (MouseDown x y) s = handleMouseDown x y s"
| "apply_op (MouseMove x y) s = handleMouseMove x y s"
| "apply_op (MouseUp now tick) s = handleMouseUp now tick s"
| "apply_op (StartRecording cb) s = startRecording cb s"
| "apply_op StopRecording s = stopRecording s"
| "apply_op (DataAvailable d) s = ondataavailable d s"
| "apply_op RecorderStopped s = onstop s"

fun run :: "op list \<Rightarrow> sim \<Rightarrow> sim" where
  "run [] s = s"
| "run (x # xs) s = run xs (apply_op x s)"

section \<open>Scenarios\<close>

text \<open>
  Four states reached through the public methods on a 1080 x 1080 canvas (boundary centre
  \<open>(540, 540)\<close>, boundary radius \<open>415\<close>, maximum radius \<open>622.5\<close>), in which \<open>handleMouseUp\<close>
  runs \<open>update\<close>: the ball is grabbed at its initial centre \<open>(540, 400)\<close>, dragged and
  released. In \<open>dropped\<close> it is dragged to \<open>(840, 939.6002)\<close>; gravity and decay then move the
  centre to \<open>(840, 940)\<close>, at distance \<open>500\<close> from the boundary centre, so the step collides.
  \<open>inflated\<close> is the same release after the
  growth rate was first set to \<open>201\<close> by \<open>setBallGrowthRate(200)\<close>, so this one collision
  takes the radius to its maximum, \<open>1.5\<close> times the boundary radius (line 57: the ball is
  allowed to grow larger than the ring). \<open>thrown\<close> is the same release under gravity \<open>4\<close>
  (from \<open>(840, 936.002)\<close>, so the centre again arrives at \<open>(840, 940)\<close>), which leaves the
  speed after the collision above \<open>1\<close>. \<open>stalled\<close> is the release at \<open>(840, 940)\<close> under gravity
  \<open>0\<close>: the ball meets the wall with velocity \<open>(0, 0)\<close>.
\<close>

definition dropped :: sim where
  "dropped =
     (run [MouseDown (Fin 540) (Fin 400), MouseMove (Fin 840) (Fin 939.6002)]
        (constructor 1080 1080 0))\<lparr>isDragging := False, running := True\<rparr>"

definition inflated :: sim where
  "inflated =
     (run [SetBallGrowthRate (Fin 200), MouseDown (Fin 540) (Fin 400),
           MouseMove (Fin 840) (Fin 939.6002)]
        (constructor 1080 1080 0))\<lparr>isDragging := False, running := True\<rparr>"

definition thrown :: sim where
  "thrown =
     (run [SetGravity (Fin 4), MouseDown (Fin 540) (Fin 400), MouseMove (Fin 840) (Fin 936.002)]
        (constructor 1080 1080 0))\<lparr>isDragging := False, running := True\<rparr>"

definition stalled :: sim where
  "stalled =
     (run [SetGravity (Fin 0), MouseDown (Fin 540) (Fin 400), MouseMove (Fin 840) (Fin 940)]
        (constructor 1080 1080 0))\<lparr>isDragging := False, running := True\<rparr>"

section \<open>Predicates of the claims\<close>

text \<open>Both histories are within their capacities.\<close>

definition histories_bounded :: "sim \<Rightarrow> bool" where
  "histories_bounded s =
     (length (previousPositions s) \<le> MOTION_BLUR_STEPS
      \<and> length (collisionPoints s) \<le> MAX_COLLISION_POINTS)"

text \<open>
  One operation's effect on a history of capacity \<open>cap\<close>: it is left alone, or cleared, or
  one entry is appended at the end and, exactly when the history was full, the entry at
  the front (the oldest) is removed.
\<close>

definition history_step :: "nat \<Rightarrow> point list \<Rightarrow> point list \<Rightarrow> bool" where
  "history_step cap old new =
     (new = old \<or> new = [] \<or>
      (\<exists>p. new = (if length old < cap then old @ [p] else tl old @ [p])))"

text \<open>
  The radius is within \<open>[INITIAL_BALL_RADIUS, MAX_BALL_RADIUS]\<close> and the growth rate is at
  least \<open>1\<close>, in the order of JavaScript numbers (so none of them is NaN).
\<close>

definition radius_ok :: "sim \<Rightarrow> bool" where
  "radius_ok s =
     (js_le INITIAL_BALL_RADIUS (ballRadius s)
      \<and> js_le (ballRadius s) (MAX_BALL_RADIUS s)
      \<and> js_le (Fin 1) (BALL_GROWTH_RATE s))"

text \<open>
  The operations between two resets that keep the growth rate at least \<open>1\<close>: everything
  but \<open>reset\<close>, with \<open>setBallGrowthRate\<close> called on values \<open>\<ge> 0\<close> only.
\<close>

definition keeps_growth :: "op \<Rightarrow> bool" where
  "keeps_growth x =
     (case x of Reset now \<Rightarrow> False | SetBallGrowthRate v \<Rightarrow> js_le (Fin 0) v | _ \<Rightarrow> True)"

text \<open>
  Appending to a history of capacity \<open>cap\<close> as the claim words it: the entry goes to the
  end, and when the history is full the entry at the front (the oldest) leaves.
\<close>

definition fifo_push :: "nat \<Rightarrow> 'a \<Rightarrow> 'a list \<Rightarrow> 'a list" where
  "fifo_push cap x xs = (if length xs < cap then xs @ [x] else tl xs @ [x])"

text \<open>The operations that run \<open>update\<close> in the state \<open>s\<close>, and the one that is \<open>reset\<close>.\<close>

definition runs_update :: "op \<Rightarrow> sim \<Rightarrow> bool" where
  "runs_update x s =
     (case x of Tick now \<Rightarrow> running s | Start now tick \<Rightarrow> True
      | MouseUp now tick \<Rightarrow> isDragging s | _ \<Rightarrow> False)"

definition is_reset :: "op \<Rightarrow> bool" where
  "is_reset x = (case x of Reset now \<Rightarrow> True | _ \<Rightarrow> False)"


section \<open>Arithmetic lemmas\<close>

lemma sqrt_one_plus_sq_div:
  fixes x y :: real
  assumes "x \<noteq> 0"
  shows "sqrt (1 + (y / x)\<^sup>2) = sqrt (x\<^sup>2 + y\<^sup>2) / \<bar>x\<bar>"
proof -
  have "1 + (y / x)\<^sup>2 = (x\<^sup>2 + y\<^sup>2) / x\<^sup>2"
    using assms by (simp add: field_simps power2_eq_square)
  then show ?thesis
    by (simp add: real_sqrt_divide)
qed

lemma cos_atan2:
  assumes "x \<noteq> 0 \<or> y \<noteq> 0"
  shows "cos (atan2 y x) = x / sqrt (x\<^sup>2 + y\<^sup>2)"
proof -
  consider "0 < x" | "x < 0" | "x = 0" by linarith
  then show ?thesis
  proof cases
    case 1
    then show ?thesis
      by (simp add: atan2_def cos_arctan sqrt_one_plus_sq_div)
  next
    case 2
    then show ?thesis
      by (simp add: atan2_def cos_arctan sqrt_one_plus_sq_div)
  next
    case 3
    then show ?thesis using assms
      by (simp add: atan2_def)
  qed
qed

lemma sin_atan2:
  assumes "x \<noteq> 0 \<or> y \<noteq> 0"
  shows "sin (atan2 y x) = y / sqrt (x\<^sup>2 + y\<^sup>2)"
proof -
  consider "0 < x" | "x < 0" | "x = 0" by linarith
  then show ?thesis
  proof cases
    case 1
    then show ?thesis
      by (simp add: atan2_def sin_arctan sqrt_one_plus_sq_div)
  next
    case 2
    then show ?thesis
      by (simp add: atan2_def sin_arctan sqrt_one_plus_sq_div)
  next
    case 3
    then show ?thesis using assms
      by (simp add: atan2_def real_sqrt_abs abs_if)
  qed
qed

section \<open>Histories and fields the step leaves alone\<close>

lemma length_push_capped:
  "length xs \<le> cap \<Longrightarrow> length (push_capped cap x xs) \<le> cap"
  by (simp add: push_capped_def Let_def)

lemma push_capped_fifo:
  "0 < cap \<Longrightarrow> length xs \<le> cap \<Longrightarrow>
   push_capped cap x xs = (if length xs < cap then xs @ [x] else tl xs @ [x])"
  by (cases xs) (auto simp: push_capped_def Let_def)

lemma integrate_fields:
  "elapsedTime (integrate s) = elapsedTime s"
  "startTime (integrate s) = startTime s"
  "running (integrate s) = running s"
  "isDragging (integrate s) = isDragging s"
  "ballRadius (integrate s) = ballRadius s"
  "collisionPoints (integrate s) = collisionPoints s"
  "collisions (integrate s) = collisions s"
  "WIDTH (integrate s) = WIDTH s"
  "HEIGHT (integrate s) = HEIGHT s"
  "CIRCLE_RADIUS (integrate s) = CIRCLE_RADIUS s"
  "MAX_BALL_RADIUS (integrate s) = MAX_BALL_RADIUS s"
  "BALL_GROWTH_RATE (integrate s) = BALL_GROWTH_RATE s"
  "VELOCITY_INCREASE_FACTOR (integrate s) = VELOCITY_INCREASE_FACTOR s"
  "previousPositions (integrate s) =
     push_capped MOTION_BLUR_STEPS (ballCenter s) (previousPositions s)"
  by (simp_all add: integrate_def Let_def split_def)

lemma resolve_fields:
  "elapsedTime (resolve s) = elapsedTime s"
  "startTime (resolve s) = startTime s"
  "running (resolve s) = running s"
  "isDragging (resolve s) = isDragging s"
  "previousPositions (resolve s) = previousPositions s"
  "collisions (resolve s) = Suc (collisions s)"
  "WIDTH (resolve s) = WIDTH s"
  "HEIGHT (resolve s) = HEIGHT s"
  "CIRCLE_RADIUS (resolve s) = CIRCLE_RADIUS s"
  "MAX_BALL_RADIUS (resolve s) = MAX_BALL_RADIUS s"
  "BALL_GROWTH_RATE (resolve s) = BALL_GROWTH_RATE s"
  "ballRadius (resolve s) = grown s"
  "ballVelocity (resolve s) = floored (increased (VELOCITY_INCREASE_FACTOR s) (reflected s))"
  by (simp_all add: resolve_def Let_def split_def)

lemma update_elapsedTime:
  "elapsedTime (update now s) = js_div (js_sub (Fin now) (startTime s)) (Fin 1000)"
  by (simp add: update_def Let_def integrate_fields resolve_fields)

lemma update_previousPositions:
  "previousPositions (update now s) =
     push_capped MOTION_BLUR_STEPS (ballCenter s) (previousPositions s)"
  by (simp add: update_def Let_def integrate_fields resolve_fields)

lemma update_collisionPoints:
  "collisionPoints (update now s) = collisionPoints s \<or>
   (\<exists>p. collisionPoints (update now s) = push_capped MAX_COLLISION_POINTS p (collisionPoints s))"
  by (auto simp: update_def Let_def integrate_fields resolve_def split_def)





lemma history_step_push:
  "0 < cap \<Longrightarrow> length xs \<le> cap \<Longrightarrow> history_step cap xs (push_capped cap p xs)"
  unfolding history_step_def by (auto simp: push_capped_fifo)

lemma update_bounded:
  assumes "histories_bounded s"
  shows "histories_bounded (update now s)"
proof -
  have "length (previousPositions (update now s)) \<le> MOTION_BLUR_STEPS"
    using assms by (simp add: update_previousPositions histories_bounded_def length_push_capped)
  moreover have "length (collisionPoints (update now s)) \<le> MAX_COLLISION_POINTS"
    using assms update_collisionPoints [of now s]
    by (auto simp: histories_bounded_def length_push_capped)
  ultimately show ?thesis by (simp add: histories_bounded_def)
qed

lemma update_history_step:
  assumes "histories_bounded s"
  shows "history_step MOTION_BLUR_STEPS (previousPositions s) (previousPositions (update now s))"
    and "history_step MAX_COLLISION_POINTS (collisionPoints s) (collisionPoints (update now s))"
proof -
  show "history_step MOTION_BLUR_STEPS (previousPositions s) (previousPositions (update now s))"
    using assms
    by (simp add: update_previousPositions histories_bounded_def history_step_push
        MOTION_BLUR_STEPS_def)
  show "history_step MAX_COLLISION_POINTS (collisionPoints s) (collisionPoints (update now s))"
    using assms update_collisionPoints [of now s]
    by (auto simp: histories_bounded_def history_step_push MAX_COLLISION_POINTS_def)
      (simp add: history_step_def)
qed

lemma start_eq_update:
  "start now tick s =
     update tick ((if \<not> running s
                   then s\<lparr>startTime := js_sub (Fin now) (js_mul (elapsedTime s) (Fin 1000))\<rparr>
                   else s)\<lparr>running := True\<rparr>)"
  by (simp add: start_def animate_def Let_def)

lemma history_frame:
  assumes "previousPositions s' = previousPositions s" "collisionPoints s' = collisionPoints s"
    and "histories_bounded s"
  shows "histories_bounded (update now s')"
    and "history_step MOTION_BLUR_STEPS (previousPositions s) (previousPositions (update now s'))"
    and "history_step MAX_COLLISION_POINTS (collisionPoints s) (collisionPoints (update now s'))"
proof -
  have b: "histories_bounded s'"
    using assms by (simp add: histories_bounded_def)
  show "histories_bounded (update now s')"
    by (rule update_bounded [OF b])
  show "history_step MOTION_BLUR_STEPS (previousPositions s) (previousPositions (update now s'))"
    using update_history_step(1) [OF b, of now] assms(1) by simp
  show "history_step MAX_COLLISION_POINTS (collisionPoints s) (collisionPoints (update now s'))"
    using update_history_step(2) [OF b, of now] assms(2) by simp
qed

lemma history_step_refl: "history_step cap xs xs"
  by (simp add: history_step_def)

lemma history_step_Nil: "history_step cap xs []"
  by (simp add: history_step_def)

lemma start_history:
  assumes "histories_bounded s"
  shows "histories_bounded (start now tick s)"
    and "history_step MOTION_BLUR_STEPS (previousPositions s) (previousPositions (start now tick s))"
    and "history_step MAX_COLLISION_POINTS (collisionPoints s) (collisionPoints (start now tick s))"
  unfolding start_eq_update
  by (rule history_frame [OF _ _ assms]; simp)+

lemma animate_history:
  assumes "histories_bounded s"
  shows "histories_bounded (animate now s)"
    and "history_step MOTION_BLUR_STEPS (previousPositions s) (previousPositions (animate now s))"
    and "history_step MAX_COLLISION_POINTS (collisionPoints s) (collisionPoints (animate now s))"
  using assms update_bounded [OF assms, of now] update_history_step [OF assms, of now]
  by (simp_all add: animate_def history_step_refl)

lemma handleMouseUp_history:
  assumes "histories_bounded s"
  shows "histories_bounded (handleMouseUp now tick s)"
    and "history_step MOTION_BLUR_STEPS (previousPositions s)
           (previousPositions (handleMouseUp now tick s))"
    and "history_step MAX_COLLISION_POINTS (collisionPoints s)
           (collisionPoints (handleMouseUp now tick s))"
proof -
  have b: "histories_bounded (s\<lparr>isDragging := False\<rparr>)"
    using assms by (simp add: histories_bounded_def)
  show "histories_bounded (handleMouseUp now tick s)"
    using assms start_history(1) [OF b] by (simp add: handleMouseUp_def)
  show "history_step MOTION_BLUR_STEPS (previousPositions s)
           (previousPositions (handleMouseUp now tick s))"
    using start_history(2) [OF b, of now tick] by (simp add: handleMouseUp_def history_step_refl)
  show "history_step MAX_COLLISION_POINTS (collisionPoints s)
           (collisionPoints (handleMouseUp now tick s))"
    using start_history(3) [OF b, of now tick] by (simp add: handleMouseUp_def history_step_refl)
qed

lemma apply_op_history:
  assumes "histories_bounded s"
  shows "histories_bounded (apply_op x s)
     \<and> history_step MOTION_BLUR_STEPS (previousPositions s) (previousPositions (apply_op x s))
     \<and> history_step MAX_COLLISION_POINTS (collisionPoints s) (collisionPoints (apply_op x s))"
proof (cases x)
  case (Tick now)
  then show ?thesis using animate_history [OF assms] by simp
next
  case (Start now tick)
  then show ?thesis using start_history [OF assms] by simp
next
  case (MouseUp now tick)
  then show ?thesis using handleMouseUp_history [OF assms] by simp
next
  case (Reset now)
  then show ?thesis
    by (simp add: reset_def histories_bounded_def history_step_Nil)
next
  case (MouseDown x y)
  then show ?thesis using assms
    by (simp add: handleMouseDown_def stop_def Let_def histories_bounded_def history_step_refl)
next
  case (StartRecording cb)
  then show ?thesis using assms
    by (simp add: startRecording_def setupRecording_def set_recorder_state_def Let_def
        histories_bounded_def history_step_refl split: option.splits)
next
  case StopRecording
  then show ?thesis using assms
    by (simp add: stopRecording_def set_recorder_state_def histories_bounded_def
        history_step_refl split: option.splits)
next
  case RecorderStopped
  then show ?thesis using assms
    by (simp add: onstop_def Let_def histories_bounded_def history_step_refl
        split: option.splits)
qed (use assms in \<open>simp_all add: stop_def setGravity_def setVelocityIncrease_def
      setVelocityDecay_def setBallGrowthRate_def handleMouseMove_def ondataavailable_def
      histories_bounded_def history_step_refl\<close>)

lemma constructor_bounded: "histories_bounded (constructor w h now)"
  by (simp add: constructor_def reset_def Let_def histories_bounded_def)

lemma run_snoc: "run (xs @ [x]) s = apply_op x (run xs s)"
  by (induction xs arbitrary: s) simp_all

lemma run_bounded: "histories_bounded s \<Longrightarrow> histories_bounded (run xs s)"
  by (induction xs arbitrary: s) (simp_all add: apply_op_history)


section \<open>The radius\<close>





lemma js_le_trans: "js_le a b \<Longrightarrow> js_le b c \<Longrightarrow> js_le a c"
  by (cases a; cases b; cases c) simp_all

lemma js_le_refl: "a \<noteq> NaN \<Longrightarrow> js_le a a"
  by (cases a) simp_all

lemma js_le_not_NaN: "js_le a b \<Longrightarrow> a \<noteq> NaN \<and> b \<noteq> NaN"
  by (cases a; cases b) simp_all

lemma grow_le:
  fixes a b :: real
  shows "5 \<le> a \<Longrightarrow> 1 \<le> b \<Longrightarrow> a \<le> a * b"
  by (simp add: mult_le_cancel_left1)

lemma grown_ok:
  assumes "radius_ok s"
  shows "js_le (ballRadius s) (grown s) \<and> js_le (grown s) (MAX_BALL_RADIUS s)"
proof (cases "ballRadius s")
  case r: (Fin a)
  show ?thesis
  proof (cases "MAX_BALL_RADIUS s")
    case m: (Fin m)
    show ?thesis
    proof (cases "BALL_GROWTH_RATE s")
      case (Fin b)
      then show ?thesis using assms r m grow_le [of a b]
        by (auto simp: radius_ok_def grown_def js_min_def INITIAL_BALL_RADIUS_def)
    next
      case PInf
      then show ?thesis using assms r m
        by (auto simp: radius_ok_def grown_def js_min_def INITIAL_BALL_RADIUS_def signed_inf_def)
    qed (use assms in \<open>simp_all add: radius_ok_def\<close>)
  next
    case m: PInf
    show ?thesis
    proof (cases "BALL_GROWTH_RATE s")
      case (Fin b)
      then show ?thesis using assms r m grow_le [of a b]
        by (auto simp: radius_ok_def grown_def js_min_def INITIAL_BALL_RADIUS_def)
    next
      case PInf
      then show ?thesis using assms r m
        by (auto simp: radius_ok_def grown_def js_min_def INITIAL_BALL_RADIUS_def signed_inf_def)
    qed (use assms in \<open>simp_all add: radius_ok_def\<close>)
  qed (use assms r in \<open>simp_all add: radius_ok_def\<close>)
next
  case PInf
  then show ?thesis using assms
    by (cases "MAX_BALL_RADIUS s") (simp_all add: radius_ok_def grown_def)
qed (use assms in \<open>simp_all add: radius_ok_def INITIAL_BALL_RADIUS_def\<close>)

lemma grown_integrate: "grown (integrate s) = grown s"
  by (simp add: grown_def integrate_fields)

lemma update_radius:
  "ballRadius (update now s) = ballRadius s \<or> ballRadius (update now s) = grown s"
  by (simp add: update_def Let_def integrate_fields resolve_fields grown_integrate)
    (simp add: grown_def)

lemma update_consts:
  "MAX_BALL_RADIUS (update now s) = MAX_BALL_RADIUS s"
  "BALL_GROWTH_RATE (update now s) = BALL_GROWTH_RATE s"
  "CIRCLE_RADIUS (update now s) = CIRCLE_RADIUS s"
  "WIDTH (update now s) = WIDTH s"
  "HEIGHT (update now s) = HEIGHT s"
  by (simp_all add: update_def Let_def integrate_fields resolve_fields)

lemma update_radius_ok:
  assumes "radius_ok s"
  shows "radius_ok (update now s) \<and> js_le (ballRadius s) (ballRadius (update now s))"
proof -
  have r: "js_le (ballRadius s) (ballRadius s)"
    using assms js_le_not_NaN js_le_refl by (auto simp: radius_ok_def)
  have i: "js_le INITIAL_BALL_RADIUS (ballRadius s)"
    and m: "js_le (ballRadius s) (MAX_BALL_RADIUS s)"
    using assms by (simp_all add: radius_ok_def)
  from update_radius [of now s] show ?thesis
  proof
    assume "ballRadius (update now s) = ballRadius s"
    then show ?thesis using assms r by (simp add: radius_ok_def update_consts)
  next
    assume g: "ballRadius (update now s) = grown s"
    have "js_le INITIAL_BALL_RADIUS (grown s)"
      using js_le_trans [OF i] grown_ok [OF assms] by blast
    then show ?thesis using assms g grown_ok [OF assms]
      by (simp add: radius_ok_def update_consts)
  qed
qed

lemma radius_frame:
  assumes "ballRadius s' = ballRadius s" "MAX_BALL_RADIUS s' = MAX_BALL_RADIUS s"
    "BALL_GROWTH_RATE s' = BALL_GROWTH_RATE s" "radius_ok s"
  shows "radius_ok (update now s') \<and> js_le (ballRadius s) (ballRadius (update now s'))
    \<and> MAX_BALL_RADIUS (update now s') = MAX_BALL_RADIUS s"
proof -
  have "radius_ok s'" using assms by (simp add: radius_ok_def)
  from update_radius_ok [OF this, of now] show ?thesis
    using assms by (simp add: update_consts)
qed

lemma radius_same:
  assumes "ballRadius s' = ballRadius s" "MAX_BALL_RADIUS s' = MAX_BALL_RADIUS s"
    "BALL_GROWTH_RATE s' = BALL_GROWTH_RATE s" "radius_ok s"
  shows "radius_ok s' \<and> js_le (ballRadius s) (ballRadius s')
    \<and> MAX_BALL_RADIUS s' = MAX_BALL_RADIUS s"
  using assms js_le_not_NaN [of INITIAL_BALL_RADIUS "ballRadius s"] js_le_refl [of "ballRadius s"]
  by (simp add: radius_ok_def)

lemma add_one_ge: "js_le (Fin 0) v \<Longrightarrow> js_le (Fin 1) (js_add (Fin 1) v)"
  by (cases v) simp_all

lemma apply_op_radius:
  assumes "radius_ok s" "keeps_growth x"
  shows "radius_ok (apply_op x s) \<and> js_le (ballRadius s) (ballRadius (apply_op x s))
    \<and> MAX_BALL_RADIUS (apply_op x s) = MAX_BALL_RADIUS s"
proof (cases x)
  case (Tick now)
  then show ?thesis
    using radius_frame [OF _ _ _ assms(1), of s now] radius_same [OF _ _ _ assms(1), of s]
    by (simp add: animate_def)
next
  case (Start now tick)
  show ?thesis
    unfolding Start apply_op.simps start_eq_update
    by (rule radius_frame [OF _ _ _ assms(1)]) simp_all
next
  case Stop
  show ?thesis
    unfolding Stop apply_op.simps
    by (rule radius_same [OF _ _ _ assms(1)]) (simp_all add: stop_def)
next
  case (Reset now)
  then show ?thesis using assms by (simp add: keeps_growth_def)
next
  case (SetGravity v)
  show ?thesis
    unfolding SetGravity apply_op.simps
    by (rule radius_same [OF _ _ _ assms(1)]) (simp_all add: setGravity_def)
next
  case (SetVelocityIncrease v)
  show ?thesis
    unfolding SetVelocityIncrease apply_op.simps
    by (rule radius_same [OF _ _ _ assms(1)]) (simp_all add: setVelocityIncrease_def)
next
  case (SetVelocityDecay v)
  show ?thesis
    unfolding SetVelocityDecay apply_op.simps
    by (rule radius_same [OF _ _ _ assms(1)]) (simp_all add: setVelocityDecay_def)
next
  case (SetBallGrowthRate v)
  then show ?thesis
    using assms radius_same [OF _ _ _ assms(1), of s] add_one_ge [of v]
    by (simp add: keeps_growth_def setBallGrowthRate_def radius_ok_def)
next
  case (MouseDown x y)
  show ?thesis
    unfolding MouseDown apply_op.simps
    by (rule radius_same [OF _ _ _ assms(1)])
      (simp_all add: handleMouseDown_def stop_def Let_def)
next
  case (MouseMove x y)
  show ?thesis
    unfolding MouseMove apply_op.simps
    by (rule radius_same [OF _ _ _ assms(1)]) (simp_all add: handleMouseMove_def)
next
  case (MouseUp now tick)
  show ?thesis
  proof (cases "isDragging s")
    case True
    have "handleMouseUp now tick s = start now tick (s\<lparr>isDragging := False\<rparr>)"
      using True by (simp add: handleMouseUp_def)
    then show ?thesis
      unfolding MouseUp apply_op.simps start_eq_update
      by (simp only:) (rule radius_frame [OF _ _ _ assms(1)]; simp)
  next
    case False
    then show ?thesis using radius_same [OF _ _ _ assms(1), of s]
      by (simp add: MouseUp handleMouseUp_def)
  qed
next
  case (StartRecording cb)
  show ?thesis
    unfolding StartRecording apply_op.simps
    by (rule radius_same [OF _ _ _ assms(1)])
      (simp_all add: startRecording_def setupRecording_def set_recorder_state_def Let_def
        split: option.splits)
next
  case StopRecording
  show ?thesis
    unfolding StopRecording apply_op.simps
    by (rule radius_same [OF _ _ _ assms(1)])
      (simp_all add: stopRecording_def set_recorder_state_def split: option.splits)
next
  case (DataAvailable d)
  show ?thesis
    unfolding DataAvailable apply_op.simps
    by (rule radius_same [OF _ _ _ assms(1)]) (simp_all add: ondataavailable_def)
next
  case RecorderStopped
  show ?thesis
    unfolding RecorderStopped apply_op.simps
    by (rule radius_same [OF _ _ _ assms(1)])
      (simp_all add: onstop_def Let_def split: option.splits)
qed

lemma run_append: "run (xs @ ys) s = run ys (run xs s)"
  by (induction xs arbitrary: s) simp_all

lemma run_radius:
  assumes "radius_ok s" "list_all keeps_growth xs"
  shows "radius_ok (run xs s) \<and> js_le (ballRadius s) (ballRadius (run xs s))
    \<and> MAX_BALL_RADIUS (run xs s) = MAX_BALL_RADIUS s"
  using assms
proof (induction xs arbitrary: s)
  case Nil
  then show ?case using radius_same [of s s] by simp
next
  case (Cons x xs)
  have step: "radius_ok (apply_op x s)" "js_le (ballRadius s) (ballRadius (apply_op x s))"
    "MAX_BALL_RADIUS (apply_op x s) = MAX_BALL_RADIUS s"
    using apply_op_radius [of s x] Cons.prems by simp_all
  have rest: "radius_ok (run xs (apply_op x s))"
    "js_le (ballRadius (apply_op x s)) (ballRadius (run xs (apply_op x s)))"
    "MAX_BALL_RADIUS (run xs (apply_op x s)) = MAX_BALL_RADIUS (apply_op x s)"
    using Cons.IH [OF step(1)] Cons.prems(2) by simp_all
  show ?case
    using rest step js_le_trans [OF step(2) rest(2)] by simp
qed


section \<open>Evaluation on concrete inputs\<close>

lemmas op_defs = setGravity_def setVelocityIncrease_def setVelocityDecay_def
  setBallGrowthRate_def handleMouseDown_def handleMouseMove_def handleMouseUp_def
  start_def stop_def animate_def reset_def constructor_def

lemmas physics_defs = update_def integrate_def resolve_def collides_def distance_def
  offset_def circleCenter_def normal_def reflected_def grown_def increased_def
  speed_def floored_def push_capped_def js_sub_def js_ge_def js_min_def signed_inf_def
  INITIAL_BALL_RADIUS_def MOTION_BLUR_STEPS_def MAX_COLLISION_POINTS_def

lemmas recording_defs = startRecording_def setupRecording_def recorder_state_of_def
  set_recorder_state_def stopRecording_def ondataavailable_def onstop_def

lemma sqrt_le_iff_sq: "0 \<le> y \<Longrightarrow> (sqrt x \<le> y) = (x \<le> y\<^sup>2)"
  using real_sqrt_le_iff [of x "y\<^sup>2"] by simp

lemma le_sqrt_iff_sq: "0 \<le> x \<Longrightarrow> (x \<le> sqrt y) = (x\<^sup>2 \<le> y)"
  using real_sqrt_le_iff [of "x\<^sup>2" y] by simp

lemma update_clock_fields:
  "startTime (update now s) = startTime s"
  "running (update now s) = running s"
  by (simp_all add: update_def Let_def integrate_fields resolve_fields)

section \<open>The physics step on finite states\<close>

lemma integrate_elapsed:
  "integrate (s\<lparr>elapsedTime := e\<rparr>) = (integrate s)\<lparr>elapsedTime := e\<rparr>"
  by (simp add: integrate_def Let_def split_def)

lemma offset_elapsed: "offset (s\<lparr>elapsedTime := e\<rparr>) = offset s"
  by (simp add: offset_def circleCenter_def)

lemma distance_elapsed: "distance (s\<lparr>elapsedTime := e\<rparr>) = distance s"
  by (simp add: distance_def offset_elapsed)

lemma collides_elapsed: "collides (s\<lparr>elapsedTime := e\<rparr>) = collides s"
  by (simp add: collides_def distance_elapsed)

lemma reflected_elapsed: "reflected (s\<lparr>elapsedTime := e\<rparr>) = reflected s"
  by (simp add: reflected_def normal_def offset_elapsed distance_elapsed)

lemma grown_elapsed: "grown (s\<lparr>elapsedTime := e\<rparr>) = grown s"
  by (simp add: grown_def)

lemma resolve_elapsed:
  "resolve (s\<lparr>elapsedTime := e\<rparr>) = (resolve s)\<lparr>elapsedTime := e\<rparr>"
  by (simp add: resolve_def Let_def split_def offset_elapsed reflected_elapsed grown_elapsed
      circleCenter_def)

lemma update_alt:
  "update now s =
     (if collides (integrate s) then resolve (integrate s) else integrate s)
       \<lparr>elapsedTime := js_div (js_sub (Fin now) (startTime s)) (Fin 1000)\<rparr>"
  by (simp add: update_def Let_def integrate_elapsed collides_elapsed resolve_elapsed)

lemma update_collisions:
  "collisions (update now s) =
     (if collides (integrate s) then Suc (collisions s) else collisions s)"
  by (simp add: update_alt resolve_fields integrate_fields)

lemma update_collided:
  "(collisions (update now s) = Suc (collisions s)) = collides (integrate s)"
  by (simp add: update_collisions)

lemma update_resolved:
  assumes "collides (integrate s)"
  shows "ballCenter (update now s) = ballCenter (resolve (integrate s))"
    and "ballVelocity (update now s) = ballVelocity (resolve (integrate s))"
    and "ballRadius (update now s) = grown s"
    and "distance (update now s) = distance (resolve (integrate s))"
    and "offset (update now s) = offset (resolve (integrate s))"
  using assms
  by (simp_all add: update_alt resolve_fields grown_integrate distance_elapsed offset_elapsed)

lemma integrate_Fin:
  assumes "ballCenter s = (Fin cx, Fin cy)" "ballVelocity s = (Fin vx, Fin vy)"
    "GRAVITY s = Fin g" "VELOCITY_DECAY s = Fin k"
  shows "ballVelocity (integrate s) = (Fin (vx * k), Fin ((vy + g) * k))"
    and "ballCenter (integrate s) = (Fin (cx + vx * k), Fin (cy + (vy + g) * k))"
  using assms by (simp_all add: integrate_def Let_def)

lemma offset_Fin:
  assumes "ballCenter s = (Fin px, Fin py)"
  shows "offset s = (Fin (px - real (WIDTH s) / 2), Fin (py - real (HEIGHT s) / 2))"
  using assms by (simp add: offset_def circleCenter_def js_sub_def)

lemma distance_Fin:
  assumes "ballCenter s = (Fin px, Fin py)"
  shows "distance s = Fin (sqrt ((px - real (WIDTH s) / 2)\<^sup>2 + (py - real (HEIGHT s) / 2)\<^sup>2))"
  using assms
  by (simp add: distance_def offset_Fin power2_eq_square not_sum_squares_lt_zero)


lemma sqrt_scaled_unit:
  fixes a c s :: real
  assumes "c\<^sup>2 + s\<^sup>2 = 1"
  shows "sqrt ((a * c)\<^sup>2 + (a * s)\<^sup>2) = \<bar>a\<bar>"
proof -
  have "(a * c)\<^sup>2 + (a * s)\<^sup>2 = a\<^sup>2 * (c\<^sup>2 + s\<^sup>2)"
    by (simp add: power_mult_distrib distrib_left)
  then show ?thesis using assms by simp
qed

lemma resolve_center_Fin:
  assumes "ballCenter s = (Fin px, Fin py)" "CIRCLE_RADIUS s = Fin R" "grown s = Fin r'"
  shows "ballCenter (resolve s) =
    (Fin (real (WIDTH s) / 2
          + (R - r') * cos (atan2 (py - real (HEIGHT s) / 2) (px - real (WIDTH s) / 2))),
     Fin (real (HEIGHT s) / 2
          + (R - r') * sin (atan2 (py - real (HEIGHT s) / 2) (px - real (WIDTH s) / 2))))"
  using assms
  by (simp add: resolve_def Let_def offset_Fin circleCenter_def js_sub_def)

lemma resolve_offset_Fin:
  assumes "ballCenter s = (Fin px, Fin py)" "CIRCLE_RADIUS s = Fin R" "grown s = Fin r'"
  shows "offset (resolve s) =
    (Fin ((R - r') * cos (atan2 (py - real (HEIGHT s) / 2) (px - real (WIDTH s) / 2))),
     Fin ((R - r') * sin (atan2 (py - real (HEIGHT s) / 2) (px - real (WIDTH s) / 2))))"
  using offset_Fin [OF resolve_center_Fin [OF assms]]
  by (simp add: resolve_fields)

lemma resolve_distance_Fin:
  assumes "ballCenter s = (Fin px, Fin py)" "CIRCLE_RADIUS s = Fin R" "grown s = Fin r'"
  shows "distance (resolve s) = Fin \<bar>R - r'\<bar>"
  using distance_Fin [OF resolve_center_Fin [OF assms]]
  by (simp add: resolve_fields sqrt_scaled_unit)

lemma opposite_scale:
  fixes R r' X S :: real
  shows "(R - r') * (X / S) = - ((r' - R) / S) * X"
proof -
  have "- ((r' - R) / S) = (R - r') / S"
    by (simp add: minus_divide_left)
  then show ?thesis by simp
qed

lemma update_geometry:
  "CIRCLE_RADIUS (update now s) = CIRCLE_RADIUS s"
  "MAX_BALL_RADIUS (update now s) = MAX_BALL_RADIUS s"
  "WIDTH (update now s) = WIDTH s"
  "HEIGHT (update now s) = HEIGHT s"
  by (simp_all add: update_consts)

lemma apply_op_geometry:
  "CIRCLE_RADIUS (apply_op x s) = CIRCLE_RADIUS s
   \<and> MAX_BALL_RADIUS (apply_op x s) = MAX_BALL_RADIUS s
   \<and> WIDTH (apply_op x s) = WIDTH s \<and> HEIGHT (apply_op x s) = HEIGHT s"
  by (cases x)
    (simp_all add: op_defs update_geometry Let_def startRecording_def setupRecording_def
      set_recorder_state_def stopRecording_def ondataavailable_def onstop_def
      split: option.splits)

lemma run_geometry:
  "CIRCLE_RADIUS (run xs s) = CIRCLE_RADIUS s
   \<and> MAX_BALL_RADIUS (run xs s) = MAX_BALL_RADIUS s
   \<and> WIDTH (run xs s) = WIDTH s \<and> HEIGHT (run xs s) = HEIGHT s"
  by (induction xs arbitrary: s) (simp_all add: apply_op_geometry)

lemma constructor_geometry:
  "CIRCLE_RADIUS (constructor w h t0) = Fin (real (min w h) / 2 - 125)"
  "MAX_BALL_RADIUS (constructor w h t0) = Fin ((real (min w h) / 2 - 125) * 1.5)"
  "WIDTH (constructor w h t0) = w"
  "HEIGHT (constructor w h t0) = h"
  by (simp_all add: constructor_def reset_def Let_def js_sub_def)

lemma collision_geometry:
  assumes "ballCenter s = (Fin cx, Fin cy)" "ballVelocity s = (Fin vx, Fin vy)"
    "GRAVITY s = Fin g" "VELOCITY_DECAY s = Fin k" "CIRCLE_RADIUS s = Fin R"
    "collisions (update now s) = Suc (collisions s)" "ballRadius (update now s) = Fin r'"
  shows "distance (update now s) = Fin \<bar>R - r'\<bar>"
    and "offset (update now s) =
      (Fin ((R - r') * cos (atan2 (cy + (vy + g) * k - real (HEIGHT s) / 2)
                                   (cx + vx * k - real (WIDTH s) / 2))),
       Fin ((R - r') * sin (atan2 (cy + (vy + g) * k - real (HEIGHT s) / 2)
                                   (cx + vx * k - real (WIDTH s) / 2))))"
proof -
  have c: "collides (integrate s)"
    using assms(6) by (simp add: update_collided)
  have p: "ballCenter (integrate s) = (Fin (cx + vx * k), Fin (cy + (vy + g) * k))"
    by (rule integrate_Fin(2) [OF assms(1-4)])
  have R: "CIRCLE_RADIUS (integrate s) = Fin R"
    using assms(5) by (simp add: integrate_fields)
  have g: "grown (integrate s) = Fin r'"
    using assms(7) update_resolved(3) [OF c, of now] by (simp add: grown_integrate)
  show "distance (update now s) = Fin \<bar>R - r'\<bar>"
    using resolve_distance_Fin [OF p R g] update_resolved(4) [OF c, of now] by simp
  show "offset (update now s) =
      (Fin ((R - r') * cos (atan2 (cy + (vy + g) * k - real (HEIGHT s) / 2)
                                   (cx + vx * k - real (WIDTH s) / 2))),
       Fin ((R - r') * sin (atan2 (cy + (vy + g) * k - real (HEIGHT s) / 2)
                                   (cx + vx * k - real (WIDTH s) / 2))))"
    using resolve_offset_Fin [OF p R g] update_resolved(5) [OF c, of now]
    by (simp add: integrate_fields)
qed





section \<open>The histories, operation by operation\<close>

lemma resolve_collisionPoints:
  "collisionPoints (resolve s) =
     push_capped MAX_COLLISION_POINTS (collisionPoint s) (collisionPoints s)"
  by (simp add: resolve_def collisionPoint_def Let_def split_def)

lemma update_collisionPoints_exact:
  "collisionPoints (update now s) =
     (if collides (integrate s)
      then push_capped MAX_COLLISION_POINTS (collisionPoint (integrate s)) (collisionPoints s)
      else collisionPoints s)"
  by (simp add: update_alt resolve_collisionPoints integrate_fields)

lemma push_capped_fifo_push:
  "0 < cap \<Longrightarrow> length xs \<le> cap \<Longrightarrow> push_capped cap x xs = fifo_push cap x xs"
  by (simp add: push_capped_fifo fifo_push_def)

lemma physics_frame:
  assumes "ballCenter s' = ballCenter s" "ballVelocity s' = ballVelocity s"
    "GRAVITY s' = GRAVITY s" "VELOCITY_DECAY s' = VELOCITY_DECAY s"
    "WIDTH s' = WIDTH s" "HEIGHT s' = HEIGHT s" "CIRCLE_RADIUS s' = CIRCLE_RADIUS s"
    "ballRadius s' = ballRadius s"
  shows "collides (integrate s') = collides (integrate s)"
    and "collisionPoint (integrate s') = collisionPoint (integrate s)"
  using assms
  by (simp_all add: collides_def distance_def offset_def circleCenter_def collisionPoint_def
      integrate_def Let_def split_def)

lemma update_histories_exact:
  assumes "histories_bounded s"
    and "previousPositions s' = previousPositions s" "collisionPoints s' = collisionPoints s"
    and "ballCenter s' = ballCenter s" "ballVelocity s' = ballVelocity s"
    "GRAVITY s' = GRAVITY s" "VELOCITY_DECAY s' = VELOCITY_DECAY s"
    "WIDTH s' = WIDTH s" "HEIGHT s' = HEIGHT s" "CIRCLE_RADIUS s' = CIRCLE_RADIUS s"
    "ballRadius s' = ballRadius s"
  shows "previousPositions (update now s') =
      fifo_push MOTION_BLUR_STEPS (ballCenter s) (previousPositions s)"
    and "collisionPoints (update now s') =
      (if collides (integrate s)
       then fifo_push MAX_COLLISION_POINTS (collisionPoint (integrate s)) (collisionPoints s)
       else collisionPoints s)"
proof -
  have b: "length (previousPositions s) \<le> MOTION_BLUR_STEPS"
    "length (collisionPoints s) \<le> MAX_COLLISION_POINTS"
    using assms(1) by (simp_all add: histories_bounded_def)
  show "previousPositions (update now s') =
      fifo_push MOTION_BLUR_STEPS (ballCenter s) (previousPositions s)"
    using b(1) assms(2,4)
    by (simp add: update_previousPositions push_capped_fifo_push MOTION_BLUR_STEPS_def)
  show "collisionPoints (update now s') =
      (if collides (integrate s)
       then fifo_push MAX_COLLISION_POINTS (collisionPoint (integrate s)) (collisionPoints s)
       else collisionPoints s)"
    using b(2) assms(3) physics_frame [OF assms(4-11)]
    by (simp add: update_collisionPoints_exact push_capped_fifo_push MAX_COLLISION_POINTS_def)
qed

lemma apply_op_histories_exact:
  assumes "histories_bounded s"
  shows "previousPositions (apply_op x s) =
      (if is_reset x then []
       else if runs_update x s
       then fifo_push MOTION_BLUR_STEPS (ballCenter s) (previousPositions s)
       else previousPositions s)"
    and "collisionPoints (apply_op x s) =
      (if is_reset x then []
       else if runs_update x s \<and> collides (integrate s)
       then fifo_push MAX_COLLISION_POINTS (collisionPoint (integrate s)) (collisionPoints s)
       else collisionPoints s)"
proof -
  have u: "previousPositions (update now s') =
      fifo_push MOTION_BLUR_STEPS (ballCenter s) (previousPositions s)
    \<and> collisionPoints (update now s') =
      (if collides (integrate s)
       then fifo_push MAX_COLLISION_POINTS (collisionPoint (integrate s)) (collisionPoints s)
       else collisionPoints s)"
    if "previousPositions s' = previousPositions s" "collisionPoints s' = collisionPoints s"
      "ballCenter s' = ballCenter s" "ballVelocity s' = ballVelocity s"
      "GRAVITY s' = GRAVITY s" "VELOCITY_DECAY s' = VELOCITY_DECAY s"
      "WIDTH s' = WIDTH s" "HEIGHT s' = HEIGHT s" "CIRCLE_RADIUS s' = CIRCLE_RADIUS s"
      "ballRadius s' = ballRadius s" for s' now
    using update_histories_exact [OF assms that] by simp
  have both: "previousPositions (apply_op x s) =
      (if is_reset x then []
       else if runs_update x s
       then fifo_push MOTION_BLUR_STEPS (ballCenter s) (previousPositions s)
       else previousPositions s)
    \<and> collisionPoints (apply_op x s) =
      (if is_reset x then []
       else if runs_update x s \<and> collides (integrate s)
       then fifo_push MAX_COLLISION_POINTS (collisionPoint (integrate s)) (collisionPoints s)
       else collisionPoints s)"
  proof (cases x)
    case (Tick now)
    then show ?thesis
      using u [of s now] by (simp add: animate_def runs_update_def is_reset_def)
  next
    case (Start now tick)
    show ?thesis
      unfolding Start apply_op.simps start_eq_update
      using u [of "(if \<not> running s
          then s\<lparr>startTime := js_sub (Fin now) (js_mul (elapsedTime s) (Fin 1000))\<rparr>
          else s)\<lparr>running := True\<rparr>" tick]
      by (simp add: runs_update_def is_reset_def)
  next
    case (MouseUp now tick)
    show ?thesis
    proof (cases "isDragging s")
      case True
      have e: "handleMouseUp now tick s = start now tick (s\<lparr>isDragging := False\<rparr>)"
        using True by (simp add: handleMouseUp_def)
      show ?thesis
        unfolding MouseUp apply_op.simps e start_eq_update
        using True u [of "(if \<not> running (s\<lparr>isDragging := False\<rparr>)
            then s\<lparr>isDragging := False,
                   startTime := js_sub (Fin now)
                     (js_mul (elapsedTime (s\<lparr>isDragging := False\<rparr>)) (Fin 1000))\<rparr>
            else s\<lparr>isDragging := False\<rparr>)\<lparr>running := True\<rparr>" tick]
        by (simp add: runs_update_def is_reset_def)
    next
      case False
      then show ?thesis
        by (simp add: MouseUp handleMouseUp_def runs_update_def is_reset_def)
    qed
  next
    case (Reset now)
    then show ?thesis by (simp add: reset_def is_reset_def)
  next
    case (MouseDown x y)
    then show ?thesis
      by (simp add: handleMouseDown_def stop_def Let_def runs_update_def is_reset_def)
  next
    case (StartRecording cb)
    then show ?thesis
      by (simp add: recording_defs Let_def runs_update_def is_reset_def split: option.splits)
  next
    case StopRecording
    then show ?thesis
      by (simp add: recording_defs runs_update_def is_reset_def split: option.splits)
  next
    case RecorderStopped
    then show ?thesis
      by (simp add: recording_defs Let_def runs_update_def is_reset_def split: option.splits)
  qed (simp_all add: stop_def setGravity_def setVelocityIncrease_def setVelocityDecay_def
      setBallGrowthRate_def handleMouseMove_def ondataavailable_def runs_update_def is_reset_def)
  show "previousPositions (apply_op x s) =
      (if is_reset x then []
       else if runs_update x s
       then fifo_push MOTION_BLUR_STEPS (ballCenter s) (previousPositions s)
       else previousPositions s)"
    using both by blast
  show "collisionPoints (apply_op x s) =
      (if is_reset x then []
       else if runs_update x s \<and> collides (integrate s)
       then fifo_push MAX_COLLISION_POINTS (collisionPoint (integrate s)) (collisionPoints s)
       else collisionPoints s)"
    using both by blast
qed

section \<open>The scenarios evaluated\<close>

lemma sqrt_250000: "sqrt 250000 = 500"
  by (rule real_sqrt_unique) simp_all

lemma atan2_400_300: "cos (atan2 400 300) = 3 / 5" "sin (atan2 400 300) = 4 / 5"
  by (simp_all add: cos_atan2 sin_atan2 sqrt_250000)

lemma dropped_run:
  "run [MouseDown (Fin 540) (Fin 400), MouseMove (Fin 840) (Fin 939.6002), MouseUp 0 16]
     (constructor 1080 1080 0) = update 16 dropped"
  by (simp add: dropped_def op_defs Let_def js_sub_def INITIAL_BALL_RADIUS_def)

lemma inflated_run:
  "run [SetBallGrowthRate (Fin 200), MouseDown (Fin 540) (Fin 400),
        MouseMove (Fin 840) (Fin 939.6002), MouseUp 0 16]
     (constructor 1080 1080 0) = update 16 inflated"
  by (simp add: inflated_def op_defs Let_def js_sub_def INITIAL_BALL_RADIUS_def)

lemma dropped_fields:
  "ballCenter dropped = (Fin 840, Fin 939.6002)"
  "ballVelocity dropped = (Fin 0, Fin 0)"
  "GRAVITY dropped = Fin 0.4"
  "VELOCITY_DECAY dropped = Fin 0.9995"
  "CIRCLE_RADIUS dropped = Fin 415"
  "ballRadius dropped = Fin 5"
  "VELOCITY_INCREASE_FACTOR dropped = Fin 1.02"
  "BALL_GROWTH_RATE dropped = Fin 1.015"
  "MAX_BALL_RADIUS dropped = Fin 622.5"
  "WIDTH dropped = 1080"
  "HEIGHT dropped = 1080"
  "collisions dropped = 0"
  by (simp_all add: dropped_def op_defs Let_def js_sub_def INITIAL_BALL_RADIUS_def)

lemma inflated_fields:
  "ballCenter inflated = (Fin 840, Fin 939.6002)"
  "ballVelocity inflated = (Fin 0, Fin 0)"
  "GRAVITY inflated = Fin 0.4"
  "VELOCITY_DECAY inflated = Fin 0.9995"
  "CIRCLE_RADIUS inflated = Fin 415"
  "ballRadius inflated = Fin 5"
  "VELOCITY_INCREASE_FACTOR inflated = Fin 1.02"
  "BALL_GROWTH_RATE inflated = Fin 201"
  "MAX_BALL_RADIUS inflated = Fin 622.5"
  "WIDTH inflated = 1080"
  "HEIGHT inflated = 1080"
  "collisions inflated = 0"
  by (simp_all add: inflated_def op_defs Let_def js_sub_def INITIAL_BALL_RADIUS_def)

lemma dropped_update:
  "collisions (update 16 dropped) = Suc (collisions dropped)"
  "ballRadius (update 16 dropped) = Fin 5.075"
  "increased (VELOCITY_INCREASE_FACTOR dropped) (reflected (integrate dropped))
     = (Fin (- 0.371909952), Fin (- 0.108473736))"
  by (simp_all add: physics_defs Let_def dropped_fields sqrt_250000)

lemma inflated_update:
  "collisions (update 16 inflated) = Suc (collisions inflated)"
  "ballRadius (update 16 inflated) = Fin 622.5"
  "ballCenter (update 16 inflated) = (Fin 415.5, Fin 374)"
  by (simp_all add: physics_defs Let_def inflated_fields sqrt_250000 atan2_400_300)

lemma thrown_run:
  "run [SetGravity (Fin 4), MouseDown (Fin 540) (Fin 400), MouseMove (Fin 840) (Fin 936.002),
        MouseUp 0 16] (constructor 1080 1080 0) = update 16 thrown"
  by (simp add: thrown_def op_defs Let_def js_sub_def INITIAL_BALL_RADIUS_def)




lemma stalled_run:
  "run [SetGravity (Fin 0), MouseDown (Fin 540) (Fin 400), MouseMove (Fin 840) (Fin 940),
        MouseUp 0 16] (constructor 1080 1080 0) = update 16 stalled"
  by (simp add: stalled_def op_defs Let_def js_sub_def INITIAL_BALL_RADIUS_def)

section \<open>The claims\<close>

subsection \<open>Setters\<close>

text \<open>
  C10: for every input \<open>v\<close>, \<open>setGravity v\<close> and \<open>setVelocityDecay v\<close> store \<open>v\<close> itself,
  while \<open>setVelocityIncrease v\<close> and \<open>setBallGrowthRate v\<close> store \<open>1 + v\<close>.
\<close>

theorem setters_not_uniform:
  "GRAVITY (setGravity v s) = v
   \<and> VELOCITY_DECAY (setVelocityDecay v s) = v
   \<and> VELOCITY_INCREASE_FACTOR (setVelocityIncrease v s) = js_add (Fin 1) v
   \<and> BALL_GROWTH_RATE (setBallGrowthRate v s) = js_add (Fin 1) v"
  by (simp add: setGravity_def setVelocityDecay_def setVelocityIncrease_def
      setBallGrowthRate_def)

subsection \<open>Clock\<close>

text \<open>
  C8: for every elapsed value \<open>e\<close> and every gap \<open>g\<close> between \<open>stop\<close> (at time \<open>t\<close>) and
  \<open>start\<close> (at time \<open>t + g\<close>), the tick that \<open>start\<close> runs \<open>d\<close> milliseconds later computes
  the elapsed time \<open>e + d / 1000\<close>: it continues from \<open>e\<close> and \<open>g\<close> does not appear.
\<close>

theorem clock_continuity:
  assumes "elapsedTime s = Fin e"
  shows "elapsedTime (start (t + g) (t + g + d) (stop s)) = Fin (e + d / 1000)"
  using assms
  by (simp add: start_def stop_def animate_def update_elapsedTime js_sub_def Let_def
      field_simps)


theorem clock_continuity_witness:
  "elapsedTime (run [Start 0 0, Tick 2000] (constructor 1080 1080 0)) = Fin 2
   \<and> elapsedTime (run [Start 0 0, Tick 2000, Stop, Start (2000 + 5000) (2000 + 5000 + 16)]
        (constructor 1080 1080 0)) = Fin (2 + 16 / 1000)"
proof -
  have e: "elapsedTime (run [Start 0 0, Tick 2000] (constructor 1080 1080 0)) = Fin 2"
    by (simp add: start_def animate_def update_elapsedTime update_clock_fields js_sub_def
        constructor_def reset_def Let_def)
  show ?thesis
    using e clock_continuity [OF e, of 2000 5000 16] by simp
qed

subsection \<open>Histories\<close>

text \<open>
  C6: after every sequence of operations on a constructed simulation the motion-sample
  history holds at most \<open>MOTION_BLUR_STEPS\<close> entries and the collision-point history at
  most \<open>MAX_COLLISION_POINTS\<close>. A physics step appends the current centre to the motion
  samples and, exactly when it collides, the collision point to the collision points; each
  append goes to the end and removes the entry at the front (the oldest) exactly when the
  history was full. Every further operation does to each history what its kind says:
  \<open>reset\<close> clears it, an operation that runs \<open>update\<close> appends in that way, any other
  leaves it as it is.
\<close>

theorem histories_bounded_fifo:
  "let s = run ops (constructor w h now) in
     length (previousPositions s) \<le> MOTION_BLUR_STEPS
   \<and> length (collisionPoints s) \<le> MAX_COLLISION_POINTS
   \<and> history_step MOTION_BLUR_STEPS (previousPositions s)
       (previousPositions (run (ops @ [x]) (constructor w h now)))
   \<and> history_step MAX_COLLISION_POINTS (collisionPoints s)
       (collisionPoints (run (ops @ [x]) (constructor w h now)))
   \<and> previousPositions (update tick s) =
       (if length (previousPositions s) < MOTION_BLUR_STEPS
        then previousPositions s @ [ballCenter s]
        else tl (previousPositions s) @ [ballCenter s])
   \<and> collisionPoints (update tick s) =
       (if collides (integrate s)
        then (if length (collisionPoints s) < MAX_COLLISION_POINTS
              then collisionPoints s @ [collisionPoint (integrate s)]
              else tl (collisionPoints s) @ [collisionPoint (integrate s)])
        else collisionPoints s)
   \<and> previousPositions (run (ops @ [x]) (constructor w h now)) =
       (if is_reset x then []
        else if runs_update x s
        then fifo_push MOTION_BLUR_STEPS (ballCenter s) (previousPositions s)
        else previousPositions s)
   \<and> collisionPoints (run (ops @ [x]) (constructor w h now)) =
       (if is_reset x then []
        else if runs_update x s \<and> collides (integrate s)
        then fifo_push MAX_COLLISION_POINTS (collisionPoint (integrate s)) (collisionPoints s)
        else collisionPoints s)"
proof -
  let ?s = "run ops (constructor w h now)"
  have b: "histories_bounded ?s"
    by (rule run_bounded [OF constructor_bounded])
  have l: "length (previousPositions ?s) \<le> MOTION_BLUR_STEPS"
    "length (collisionPoints ?s) \<le> MAX_COLLISION_POINTS"
    using b by (simp_all add: histories_bounded_def)
  have h: "history_step MOTION_BLUR_STEPS (previousPositions ?s)
      (previousPositions (run (ops @ [x]) (constructor w h now)))"
    "history_step MAX_COLLISION_POINTS (collisionPoints ?s)
      (collisionPoints (run (ops @ [x]) (constructor w h now)))"
    using apply_op_history [OF b] by (simp_all add: run_snoc)
  have p: "previousPositions (update tick ?s) =
      (if length (previousPositions ?s) < MOTION_BLUR_STEPS
       then previousPositions ?s @ [ballCenter ?s]
       else tl (previousPositions ?s) @ [ballCenter ?s])"
    using l(1)
    by (simp add: update_previousPositions push_capped_fifo MOTION_BLUR_STEPS_def)
  have c: "collisionPoints (update tick ?s) =
      (if collides (integrate ?s)
       then (if length (collisionPoints ?s) < MAX_COLLISION_POINTS
             then collisionPoints ?s @ [collisionPoint (integrate ?s)]
             else tl (collisionPoints ?s) @ [collisionPoint (integrate ?s)])
       else collisionPoints ?s)"
    using l(2)
    by (simp add: update_collisionPoints_exact push_capped_fifo MAX_COLLISION_POINTS_def)
  have e: "previousPositions (run (ops @ [x]) (constructor w h now)) =
      (if is_reset x then []
       else if runs_update x ?s
       then fifo_push MOTION_BLUR_STEPS (ballCenter ?s) (previousPositions ?s)
       else previousPositions ?s)"
    "collisionPoints (run (ops @ [x]) (constructor w h now)) =
      (if is_reset x then []
       else if runs_update x ?s \<and> collides (integrate ?s)
       then fifo_push MAX_COLLISION_POINTS (collisionPoint (integrate ?s)) (collisionPoints ?s)
       else collisionPoints ?s)"
    using apply_op_histories_exact [OF b, of x] by (simp_all only: run_snoc)
  show ?thesis
    unfolding Let_def using l h p c e by blast
qed

subsection \<open>Dragging\<close>

text \<open>
  C7: while a drag is active, every sequence of pointer moves ending in \<open>(x, y)\<close> sets the
  centre to \<open>(x, y)\<close> and the velocity to \<open>(0, 0)\<close> and changes no other field; in
  particular the radius and both histories are unchanged.
\<close>

theorem drag_moves:
  assumes "isDragging s"
  shows "run (map (\<lambda>p. MouseMove (fst p) (snd p)) (ps @ [(x, y)])) s
      = s\<lparr>ballCenter := (x, y), ballVelocity := (Fin 0, Fin 0)\<rparr>
    \<and> ballCenter (run (map (\<lambda>p. MouseMove (fst p) (snd p)) (ps @ [(x, y)])) s) = (x, y)
    \<and> ballVelocity (run (map (\<lambda>p. MouseMove (fst p) (snd p)) (ps @ [(x, y)])) s) = (Fin 0, Fin 0)
    \<and> ballRadius (run (map (\<lambda>p. MouseMove (fst p) (snd p)) (ps @ [(x, y)])) s) = ballRadius s
    \<and> previousPositions (run (map (\<lambda>p. MouseMove (fst p) (snd p)) (ps @ [(x, y)])) s)
        = previousPositions s
    \<and> collisionPoints (run (map (\<lambda>p. MouseMove (fst p) (snd p)) (ps @ [(x, y)])) s)
        = collisionPoints s"
  using assms
  by (induction ps arbitrary: s) (simp_all add: handleMouseMove_def)

theorem drag_moves_witness:
  "isDragging (run [Start 0 0, MouseDown (Fin 540) (Fin 400)] (constructor 1080 1080 0))
   \<and> ballCenter (run [Start 0 0, MouseDown (Fin 540) (Fin 400), MouseMove (Fin 700) (Fin 300),
        MouseMove (Fin 955) (Fin 540)] (constructor 1080 1080 0)) = (Fin 955, Fin 540)
   \<and> ballVelocity (run [Start 0 0, MouseDown (Fin 540) (Fin 400), MouseMove (Fin 700) (Fin 300),
        MouseMove (Fin 955) (Fin 540)] (constructor 1080 1080 0)) = (Fin 0, Fin 0)
   \<and> ballRadius (run [Start 0 0, MouseDown (Fin 540) (Fin 400), MouseMove (Fin 700) (Fin 300),
        MouseMove (Fin 955) (Fin 540)] (constructor 1080 1080 0)) = Fin 5
   \<and> previousPositions (run [Start 0 0, MouseDown (Fin 540) (Fin 400),
        MouseMove (Fin 700) (Fin 300), MouseMove (Fin 955) (Fin 540)] (constructor 1080 1080 0))
       = [(Fin 540, Fin 400)]
   \<and> collisionPoints (run [Start 0 0, MouseDown (Fin 540) (Fin 400),
        MouseMove (Fin 700) (Fin 300), MouseMove (Fin 955) (Fin 540)] (constructor 1080 1080 0))
       = []"
proof -
  let ?s = "run [Start 0 0, MouseDown (Fin 540) (Fin 400)] (constructor 1080 1080 0)"
  have d: "isDragging ?s"
    by (simp add: op_defs physics_defs Let_def le_sqrt_iff_sq sqrt_le_iff_sq)
  have f: "ballRadius ?s = Fin 5" "previousPositions ?s = [(Fin 540, Fin 400)]"
    "collisionPoints ?s = []"
    by (simp_all add: op_defs physics_defs Let_def le_sqrt_iff_sq sqrt_le_iff_sq)
  show ?thesis
    using d f drag_moves [OF d, of "[(Fin 700, Fin 300)]" "Fin 955" "Fin 540"]
    by simp
qed

subsection \<open>Radius\<close>

text \<open>
  C1 (amended): from a state whose radius is within \<open>[INITIAL_BALL_RADIUS, MAX_BALL_RADIUS]\<close>
  and whose growth rate is at least \<open>1\<close>, along every sequence of operations without
  \<open>reset\<close> in which \<open>setBallGrowthRate\<close> is only called on values \<open>\<ge> 0\<close>, the radius never
  decreases and stays within \<open>[INITIAL_BALL_RADIUS, MAX_BALL_RADIUS]\<close>.
\<close>

theorem radius_monotone_bounded:
  assumes "radius_ok s" "list_all keeps_growth (xs @ ys)"
  shows "js_le INITIAL_BALL_RADIUS (ballRadius (run xs s))
    \<and> js_le (ballRadius (run xs s)) (ballRadius (run (xs @ ys) s))
    \<and> js_le (ballRadius (run (xs @ ys) s)) (MAX_BALL_RADIUS s)"
proof -
  have a: "radius_ok (run xs s)"
    using run_radius [of s xs] assms by simp
  have b: "radius_ok (run ys (run xs s))"
    "js_le (ballRadius (run xs s)) (ballRadius (run ys (run xs s)))"
    "MAX_BALL_RADIUS (run ys (run xs s)) = MAX_BALL_RADIUS (run xs s)"
    using run_radius [OF a, of ys] assms(2) by simp_all
  have c: "MAX_BALL_RADIUS (run xs s) = MAX_BALL_RADIUS s"
    using run_radius [of s xs] assms by simp
  show ?thesis
    using a b c by (simp add: radius_ok_def run_append)
qed

theorem radius_monotone_bounded_witness:
  "radius_ok (constructor 1080 1080 0)
   \<and> list_all keeps_growth ([MouseDown (Fin 540) (Fin 400), MouseMove (Fin 955) (Fin 540),
        MouseUp 1000 1000] @ [SetBallGrowthRate (Fin 0.03), Tick 1016])
   \<and> js_le INITIAL_BALL_RADIUS (ballRadius (run [MouseDown (Fin 540) (Fin 400),
        MouseMove (Fin 955) (Fin 540), MouseUp 1000 1000] (constructor 1080 1080 0)))
   \<and> js_le (ballRadius (run [MouseDown (Fin 540) (Fin 400),
        MouseMove (Fin 955) (Fin 540), MouseUp 1000 1000] (constructor 1080 1080 0)))
       (ballRadius (run ([MouseDown (Fin 540) (Fin 400), MouseMove (Fin 955) (Fin 540),
        MouseUp 1000 1000] @ [SetBallGrowthRate (Fin 0.03), Tick 1016])
        (constructor 1080 1080 0)))
   \<and> js_le (ballRadius (run ([MouseDown (Fin 540) (Fin 400), MouseMove (Fin 955) (Fin 540),
        MouseUp 1000 1000] @ [SetBallGrowthRate (Fin 0.03), Tick 1016])
        (constructor 1080 1080 0)))
       (MAX_BALL_RADIUS (constructor 1080 1080 0))"
proof -
  have ok: "radius_ok (constructor 1080 1080 0)"
    by (simp add: radius_ok_def constructor_def reset_def Let_def INITIAL_BALL_RADIUS_def
        js_sub_def)
  have ops: "list_all keeps_growth ([MouseDown (Fin 540) (Fin 400),
      MouseMove (Fin 955) (Fin 540), MouseUp 1000 1000] @ [SetBallGrowthRate (Fin 0.03), Tick 1016])"
    by (simp add: keeps_growth_def)
  show ?thesis
    using ok ops radius_monotone_bounded [OF ok ops] by simp
qed

text \<open>
  C1 as stated fails. With the growth rate \<open>0.5\<close> that \<open>setBallGrowthRate(-0.5)\<close> installs, the
  first collision (the ball dragged onto the ring of a 1080 x 1080 canvas and released)
  shrinks the radius from \<open>5\<close> to \<open>2.5\<close>, below \<open>INITIAL_BALL_RADIUS\<close>; and on a 250 x 250
  canvas the radius \<open>5\<close> set by the constructor is above \<open>MAX_BALL_RADIUS = 0\<close>.
\<close>

theorem radius_counterexample:
  "ballRadius (run [SetBallGrowthRate (Fin (- 0.5)), MouseDown (Fin 540) (Fin 400),
      MouseMove (Fin 955) (Fin 540), MouseUp 1000 1000] (constructor 1080 1080 0)) = Fin 2.5
   \<and> ballRadius (constructor 250 250 0) = Fin 5
   \<and> MAX_BALL_RADIUS (constructor 250 250 0) = Fin 0"
  by (simp add: op_defs Let_def physics_defs le_sqrt_iff_sq)

subsection \<open>Collision test and reflection\<close>




subsection \<open>Speed floor\<close>

text \<open>
  C4: after any collision the speed should be at least \<open>MIN_VELOCITY = 1\<close>, the floor of
  lines 213-220 being there "to prevent stopping". The code misses the stopped ball: with
  gravity set to \<open>0\<close>, the ball dragged onto the wall (to \<open>(840, 940)\<close>, at distance \<open>500\<close> from
  the boundary centre) and released, the collision is resolved with the velocity \<open>(0, 0)\<close>
  after the reflection and the increase, \<open>currentVelocity\<close> is \<open>0\<close>, the scale is
  \<open>1/0 = Infinity\<close>, and \<open>0 * Infinity\<close> makes both components NaN: the speed is NaN, not
  \<open>\<ge> 1\<close>.
\<close>

theorem zero_speed_becomes_NaN:
  "collisions (run [SetGravity (Fin 0), MouseDown (Fin 540) (Fin 400),
        MouseMove (Fin 840) (Fin 940), MouseUp 0 16] (constructor 1080 1080 0)) = 1
   \<and> ballVelocity (run [SetGravity (Fin 0), MouseDown (Fin 540) (Fin 400),
        MouseMove (Fin 840) (Fin 940), MouseUp 0 16] (constructor 1080 1080 0)) = (NaN, NaN)
   \<and> speed (ballVelocity (run [SetGravity (Fin 0), MouseDown (Fin 540) (Fin 400),
        MouseMove (Fin 840) (Fin 940), MouseUp 0 16] (constructor 1080 1080 0))) = NaN
   \<and> \<not> js_ge (speed (ballVelocity (run [SetGravity (Fin 0), MouseDown (Fin 540) (Fin 400),
        MouseMove (Fin 840) (Fin 940), MouseUp 0 16] (constructor 1080 1080 0)))) (Fin 1)
   \<and> run [SetGravity (Fin 0), MouseDown (Fin 540) (Fin 400), MouseMove (Fin 840) (Fin 940),
        MouseUp 0 16] (constructor 1080 1080 0) = update 16 stalled
   \<and> distance (integrate stalled) = Fin 500
   \<and> normal (integrate stalled) = (Fin 0.6, Fin 0.8)
   \<and> increased (VELOCITY_INCREASE_FACTOR stalled) (reflected (integrate stalled))
        = (Fin 0, Fin 0)
   \<and> speed (increased (VELOCITY_INCREASE_FACTOR stalled) (reflected (integrate stalled)))
        = Fin 0"
  by (simp add: stalled_def op_defs physics_defs Let_def sqrt_250000)

subsection \<open>Reposition after a collision\<close>

text \<open>
  C3 (amended): after a tick from a finite state in which a collision was resolved, the
  distance from the ball centre to the boundary centre is \<open>\<bar>boundaryRadius - ballRadius\<bar>\<close>,
  which is \<open>boundaryRadius - ballRadius\<close> exactly when the radius is at most the boundary
  radius; the centre lies at \<open>boundaryRadius - ballRadius\<close> along the contact angle.
\<close>

theorem collision_reposition:
  assumes "ballCenter s = (Fin cx, Fin cy)" "ballVelocity s = (Fin vx, Fin vy)"
    "GRAVITY s = Fin g" "VELOCITY_DECAY s = Fin k" "CIRCLE_RADIUS s = Fin R"
    "collisions (update now s) = Suc (collisions s)" "ballRadius (update now s) = Fin r'"
  shows "distance (update now s) = Fin \<bar>R - r'\<bar>
    \<and> (distance (update now s) = Fin (R - r')) = (r' \<le> R)
    \<and> offset (update now s) =
      (Fin ((R - r') * cos (atan2 (cy + (vy + g) * k - real (HEIGHT s) / 2)
                                   (cx + vx * k - real (WIDTH s) / 2))),
       Fin ((R - r') * sin (atan2 (cy + (vy + g) * k - real (HEIGHT s) / 2)
                                   (cx + vx * k - real (WIDTH s) / 2))))"
  using collision_geometry [OF assms] by auto

theorem collision_reposition_witness:
  "ballCenter dropped = (Fin 840, Fin 939.6002)
   \<and> ballVelocity dropped = (Fin 0, Fin 0)
   \<and> GRAVITY dropped = Fin 0.4
   \<and> VELOCITY_DECAY dropped = Fin 0.9995
   \<and> CIRCLE_RADIUS dropped = Fin 415
   \<and> collisions (update 16 dropped) = Suc (collisions dropped)
   \<and> ballRadius (update 16 dropped) = Fin 5.075
   \<and> distance (update 16 dropped) = Fin 409.925
   \<and> offset (update 16 dropped) = (Fin 245.955, Fin 327.94)"
  using collision_reposition [OF dropped_fields(1-5) dropped_update(1,2)]
  by (simp add: dropped_fields dropped_update atan2_400_300)

text \<open>
  C3 as stated fails once the radius exceeds the boundary radius: after the collision
  that takes the radius to \<open>622.5\<close> the distance is \<open>207.5\<close>, while \<open>boundaryRadius -
  ballRadius\<close> is \<open>-207.5\<close>.
\<close>

theorem collision_reposition_counterexample:
  "collisions (run [SetBallGrowthRate (Fin 200), MouseDown (Fin 540) (Fin 400),
        MouseMove (Fin 840) (Fin 939.6002), MouseUp 0 16] (constructor 1080 1080 0)) = 1
   \<and> distance (run [SetBallGrowthRate (Fin 200), MouseDown (Fin 540) (Fin 400),
        MouseMove (Fin 840) (Fin 939.6002), MouseUp 0 16] (constructor 1080 1080 0))
      = Fin 207.5
   \<and> js_sub
        (CIRCLE_RADIUS (run [SetBallGrowthRate (Fin 200), MouseDown (Fin 540) (Fin 400),
          MouseMove (Fin 840) (Fin 939.6002), MouseUp 0 16] (constructor 1080 1080 0)))
        (ballRadius (run [SetBallGrowthRate (Fin 200), MouseDown (Fin 540) (Fin 400),
          MouseMove (Fin 840) (Fin 939.6002), MouseUp 0 16] (constructor 1080 1080 0)))
      = Fin (- 207.5)"
  unfolding inflated_run
  using collision_geometry(1) [OF inflated_fields(1-5) inflated_update(1,2)]
  by (simp add: inflated_update inflated_fields update_geometry js_sub_def)

subsection \<open>A ball larger than the boundary\<close>

text \<open>
  C9 (amended): the maximum radius is fixed at \<open>1.5\<close> times the boundary radius, so on a
  canvas whose boundary radius is positive (\<open>min w h > 250\<close>) it exceeds the boundary
  radius; once the radius after a collision is above the boundary radius, the reposition
  distance \<open>boundaryRadius - ballRadius\<close> is negative and the centre is placed on the
  opposite side of the boundary centre from the contact angle: at \<open>ballRadius -
  boundaryRadius\<close> against the direction in which the ball met the wall.
\<close>

theorem oversized_ball_reposition:
  assumes "ballCenter s = (Fin cx, Fin cy)" "ballVelocity s = (Fin vx, Fin vy)"
    "GRAVITY s = Fin g" "VELOCITY_DECAY s = Fin k" "CIRCLE_RADIUS s = Fin R"
    "collisions (update now s) = Suc (collisions s)" "ballRadius (update now s) = Fin r'"
    "R < r'"
  shows "MAX_BALL_RADIUS (run ops (constructor w h t0))
      = js_mul (CIRCLE_RADIUS (run ops (constructor w h t0))) (Fin 1.5)
    \<and> (250 < min w h \<longrightarrow>
        js_lt (CIRCLE_RADIUS (run ops (constructor w h t0)))
              (MAX_BALL_RADIUS (run ops (constructor w h t0))))
    \<and> R - r' < 0
    \<and> offset (update now s) =
      (Fin (- (r' - R) * cos (atan2 (cy + (vy + g) * k - real (HEIGHT s) / 2)
                                     (cx + vx * k - real (WIDTH s) / 2))),
       Fin (- (r' - R) * sin (atan2 (cy + (vy + g) * k - real (HEIGHT s) / 2)
                                     (cx + vx * k - real (WIDTH s) / 2))))
    \<and> (cx + vx * k - real (WIDTH s) / 2 \<noteq> 0 \<or> cy + (vy + g) * k - real (HEIGHT s) / 2 \<noteq> 0 \<longrightarrow>
        offset (update now s) =
          (Fin (- ((r' - R) / sqrt ((cx + vx * k - real (WIDTH s) / 2)\<^sup>2
                                     + (cy + (vy + g) * k - real (HEIGHT s) / 2)\<^sup>2))
                * (cx + vx * k - real (WIDTH s) / 2)),
           Fin (- ((r' - R) / sqrt ((cx + vx * k - real (WIDTH s) / 2)\<^sup>2
                                     + (cy + (vy + g) * k - real (HEIGHT s) / 2)\<^sup>2))
                * (cy + (vy + g) * k - real (HEIGHT s) / 2))))"
proof -
  have m: "MAX_BALL_RADIUS (run ops (constructor w h t0))
      = js_mul (CIRCLE_RADIUS (run ops (constructor w h t0))) (Fin 1.5)"
    by (simp add: run_geometry constructor_geometry)
  have e: "250 < min w h \<longrightarrow>
        js_lt (CIRCLE_RADIUS (run ops (constructor w h t0)))
              (MAX_BALL_RADIUS (run ops (constructor w h t0)))"
    by (simp add: run_geometry constructor_geometry)
  have n: "R - r' < 0"
    using assms(8) by simp
  have "(R - r') = - (r' - R)" by simp
  then have o: "offset (update now s) =
      (Fin (- (r' - R) * cos (atan2 (cy + (vy + g) * k - real (HEIGHT s) / 2)
                                     (cx + vx * k - real (WIDTH s) / 2))),
       Fin (- (r' - R) * sin (atan2 (cy + (vy + g) * k - real (HEIGHT s) / 2)
                                     (cx + vx * k - real (WIDTH s) / 2))))"
    using collision_geometry(2) [OF assms(1-7)] by simp
  let ?dx = "cx + vx * k - real (WIDTH s) / 2"
  let ?dy = "cy + (vy + g) * k - real (HEIGHT s) / 2"
  have d: "?dx \<noteq> 0 \<or> ?dy \<noteq> 0 \<longrightarrow>
        offset (update now s) =
          (Fin (- ((r' - R) / sqrt (?dx\<^sup>2 + ?dy\<^sup>2)) * ?dx),
           Fin (- ((r' - R) / sqrt (?dx\<^sup>2 + ?dy\<^sup>2)) * ?dy))"
  proof
    assume nz: "?dx \<noteq> 0 \<or> ?dy \<noteq> 0"
    have "offset (update now s) =
          (Fin ((R - r') * (?dx / sqrt (?dx\<^sup>2 + ?dy\<^sup>2))),
           Fin ((R - r') * (?dy / sqrt (?dx\<^sup>2 + ?dy\<^sup>2))))"
      using collision_geometry(2) [OF assms(1-7)]
      by (simp only: cos_atan2 [OF nz] sin_atan2 [OF nz])
    then show "offset (update now s) =
          (Fin (- ((r' - R) / sqrt (?dx\<^sup>2 + ?dy\<^sup>2)) * ?dx),
           Fin (- ((r' - R) / sqrt (?dx\<^sup>2 + ?dy\<^sup>2)) * ?dy))"
      by (simp only: opposite_scale)
  qed
  show ?thesis
    using m e n o d by blast
qed

theorem oversized_ball_reposition_witness:
  "ballCenter inflated = (Fin 840, Fin 939.6002)
   \<and> ballVelocity inflated = (Fin 0, Fin 0)
   \<and> GRAVITY inflated = Fin 0.4
   \<and> VELOCITY_DECAY inflated = Fin 0.9995
   \<and> CIRCLE_RADIUS inflated = Fin 415
   \<and> collisions (update 16 inflated) = Suc (collisions inflated)
   \<and> ballRadius (update 16 inflated) = Fin 622.5
   \<and> (415::real) < 622.5
   \<and> 250 < min (1080::nat) 1080
   \<and> js_lt (CIRCLE_RADIUS (run [] (constructor 1080 1080 0)))
        (MAX_BALL_RADIUS (run [] (constructor 1080 1080 0)))
   \<and> offset (update 16 inflated) = (Fin (- 124.5), Fin (- 166))"
proof -
  have lt: "(415::real) < 622.5" by simp
  show ?thesis
    using oversized_ball_reposition [OF inflated_fields(1-5) inflated_update(1,2) lt,
        of "[]" 1080 1080 0]
    by (simp add: inflated_fields inflated_update atan2_400_300 constructor_geometry)
qed

text \<open>
  C9 as stated fails on a canvas whose boundary radius is not positive: on a 250 x 250
  canvas both the boundary radius and the maximum radius are \<open>0\<close>.
\<close>

theorem oversized_ball_reposition_counterexample:
  "CIRCLE_RADIUS (constructor 250 250 0) = Fin 0
   \<and> MAX_BALL_RADIUS (constructor 250 250 0) = Fin 0
   \<and> \<not> js_lt (CIRCLE_RADIUS (constructor 250 250 0)) (MAX_BALL_RADIUS (constructor 250 250 0))"
  by (simp add: constructor_geometry)

subsection \<open>Starting a capture twice\<close>

text \<open>
  C2: a second \<open>startRecording\<close> while the first capture is recording should change
  nothing. In the code it does: \<open>setupRecording\<close> runs before the test of line 119 and
  puts a fresh, inactive recorder into \<open>mediaRecorder\<close>, so the test always succeeds. After
  \<open>startRecording(cb1); startRecording(cb2)\<close> the field points at a second recorder, the
  callback is \<open>cb2\<close> and two recorders are recording; \<open>stopRecording\<close> then stops the second
  one only, its completion calls \<open>cb2\<close> once, and the first capture is never stopped and
  \<open>cb1\<close> never called.
\<close>

theorem second_start_replaces_capture:
  "recorder_state_of (run [StartRecording (Some 1)] (constructor 1080 1080 0)) = Some Recording
   \<and> mediaRecorder (run [StartRecording (Some 1)] (constructor 1080 1080 0)) = Some 0
   \<and> onRecordingComplete (run [StartRecording (Some 1)] (constructor 1080 1080 0)) = Some 1
   \<and> mediaRecorder (run [StartRecording (Some 1), StartRecording (Some 2)]
        (constructor 1080 1080 0)) = Some 1
   \<and> onRecordingComplete (run [StartRecording (Some 1), StartRecording (Some 2)]
        (constructor 1080 1080 0)) = Some 2
   \<and> recorders (run [StartRecording (Some 1), StartRecording (Some 2)]
        (constructor 1080 1080 0)) = [Recording, Recording]
   \<and> recorders (run [StartRecording (Some 1), StartRecording (Some 2), StopRecording,
        DataAvailable [7], RecorderStopped] (constructor 1080 1080 0)) = [Recording, Inactive]
   \<and> completed (run [StartRecording (Some 1), StartRecording (Some 2), StopRecording,
        DataAvailable [7], RecorderStopped] (constructor 1080 1080 0)) = [(2, [7])]"
  by (simp add: recording_defs constructor_def reset_def Let_def)

end
